theory Spec2Isabelle
  imports Complex_Main "HOL-Library.Word" "HOL-Library.Signed_Division" "HOL-Library.Monad_Syntax"
begin

section \<open>Outcome engine: weighted tier selection (gamemath) and scratch rendering\<close>

text \<open>
  Conventions of the embedding.
  \<^item> Go's \<open>float64\<close> amounts and multipliers are modelled as \<open>real\<close>: rounding is not
    modelled, every amount is the exact value of the expression the code evaluates.
  \<^item> \<open>int64\<close> weights are \<open>64 word\<close> read as two's complement (\<open>sint\<close>, \<open>\<le>s\<close>, \<open><s\<close>):
    the additions of \<open>PickTier\<close> wrap around as Go's do.
  \<^item> The answers of \<open>crypto/rand\<close> are an input: a tape of answers, consumed from the
    front, one per call of \<open>rand.Int\<close> that reads the source. An answer is either a read
    error or a raw value, which \<open>rand.Int(_, max)\<close> delivers reduced below \<open>max\<close>. A
    function that asks for more answers than the tape holds yields \<open>None\<close>.
\<close>

type_synonym int64 = "64 word"

datatype rnd = RndErr | Rnd nat

type_synonym tape = "rnd list"

text \<open>\<open>rand.Int(rand.Reader, max)\<close> for \<open>max > 0\<close> (the code never calls it otherwise):
  \<open>(v, err)\<close> and the rest of the tape. For \<open>max = 1\<close> the only value is 0 and
  \<open>rand.Int\<close> returns it without reading the source.\<close>

definition rand_Int :: "nat \<Rightarrow> tape \<Rightarrow> (nat option \<times> tape) option" where
  "rand_Int n tp =
     (if n = 1 then Some (Some 0, tp)
      else case tp of
             [] \<Rightarrow> None
           | RndErr # t \<Rightarrow> Some (None, t)
           | Rnd r # t \<Rightarrow> Some (Some (r mod n), t))"

record PrizeTier =
  pt_Tier :: string
  pt_Multiplier :: real
  pt_Weight :: int64

text \<open>Of \<open>GameMath\<close> only the fields the modelled code reads are kept.\<close>

record GameMath =
  gm_ModelID :: string
  gm_PrizeTable :: "PrizeTier list"

definition zero_PrizeTier :: PrizeTier where
  "zero_PrizeTier = \<lparr>pt_Tier = [], pt_Multiplier = 0, pt_Weight = 0\<rparr>"

text \<open>First loop of \<open>PickTier\<close>: \<open>total\<close> (here \<open>tot\<close>) accumulates the positive weights (wrapping).\<close>

fun sum_weights :: "PrizeTier list \<Rightarrow> int64 \<Rightarrow> int64" where
  "sum_weights [] tot = tot"
| "sum_weights (t # ts) tot =
     (if pt_Weight t \<le>s 0 then sum_weights ts tot
      else sum_weights ts (tot + pt_Weight t))"

text \<open>Second loop of \<open>PickTier\<close>: the first positive tier whose cumulative weight exceeds
  \<open>idx\<close>; \<open>None\<close> when the loop falls through.\<close>

fun walk_tiers :: "PrizeTier list \<Rightarrow> int64 \<Rightarrow> int64 \<Rightarrow> PrizeTier option" where
  "walk_tiers [] idx cum = None"
| "walk_tiers (t # ts) idx cum =
     (if pt_Weight t \<le>s 0 then walk_tiers ts idx cum
      else if idx <s cum + pt_Weight t then Some t
      else walk_tiers ts idx (cum + pt_Weight t))"

text \<open>\<open>(g *GameMath) PickTier()\<close>; a nil receiver is \<open>None\<close>.\<close>

definition PickTier :: "GameMath option \<Rightarrow> tape \<Rightarrow> ((PrizeTier \<times> bool) \<times> tape) option" where
  "PickTier g tp =
     (case g of
        None \<Rightarrow> Some ((zero_PrizeTier, False), tp)
      | Some m \<Rightarrow>
          if gm_PrizeTable m = [] then Some ((zero_PrizeTier, False), tp)
          else
            let tot = sum_weights (gm_PrizeTable m) 0 in
            if tot \<le>s 0 then Some ((zero_PrizeTier, False), tp)
            else
              (case rand_Int (nat (sint tot)) tp of
                 None \<Rightarrow> None
               | Some (None, tp') \<Rightarrow> Some ((zero_PrizeTier, False), tp')
               | Some (Some v, tp') \<Rightarrow>
                   (case walk_tiers (gm_PrizeTable m) (word_of_nat v) 0 of
                      Some t \<Rightarrow> Some ((t, True), tp')
                    | None \<Rightarrow> Some ((last (gm_PrizeTable m), True), tp'))))"

subsection \<open>Scratch outcomes\<close>

definition SymbolCherry :: string where "SymbolCherry = ''cherry''"
definition SymbolLemon :: string where "SymbolLemon = ''lemon''"
definition SymbolStar :: string where "SymbolStar = ''star''"
definition SymbolSeven :: string where "SymbolSeven = ''seven''"

definition symbols :: "string list" where
  "symbols = [SymbolCherry, SymbolLemon, SymbolStar, SymbolSeven]"

record Outcome =
  out_Symbols :: "string \<times> string \<times> string"
  out_WinAmount :: real
  out_Match :: bool
  out_Tier :: string

definition zero_Outcome :: Outcome where
  "zero_Outcome = \<lparr>out_Symbols = ([], [], []), out_WinAmount = 0, out_Match = False, out_Tier = []\<rparr>"

definition WinMultiplier :: real where
  "WinMultiplier = 2"

text \<open>\<open>secureIntn(n)\<close>: 0 without a draw when \<open>n \<le> 0\<close>, 0 on a read error.\<close>

definition secureIntn :: "int \<Rightarrow> tape \<Rightarrow> (int \<times> tape) option" where
  "secureIntn n tp =
     (if n \<le> 0 then Some (0, tp)
      else case rand_Int (nat n) tp of
             None \<Rightarrow> None
           | Some (None, tp') \<Rightarrow> Some (0, tp')
           | Some (Some v, tp') \<Rightarrow> Some (int v, tp'))"

text \<open>\<open>symbols[secureIntn(len(symbols))]\<close>.\<close>

definition draw_symbol :: "tape \<Rightarrow> (string \<times> tape) option" where
  "draw_symbol tp =
     (case secureIntn (int (length symbols)) tp of
        None \<Rightarrow> None
      | Some (i, tp') \<Rightarrow> Some (symbols ! nat i, tp'))"

lemma rand_Int_shorter:
  "rand_Int n tp = Some (v, tp') \<Longrightarrow> n \<noteq> 1 \<Longrightarrow> length tp' < length tp"
  by (auto simp: rand_Int_def split: list.splits rnd.splits)

lemma draw_symbol_shorter:
  "draw_symbol tp = Some (s, tp') \<Longrightarrow> length tp' < length tp"
  by (auto simp: draw_symbol_def secureIntn_def symbols_def
           split: option.splits if_splits dest: rand_Int_shorter)

text \<open>The loop \<open>for s[0] == s[1] && s[1] == s[2] { s[2] = symbols[secureIntn(len(symbols))] }\<close>.\<close>

function redraw :: "string \<Rightarrow> string \<Rightarrow> string \<Rightarrow> tape \<Rightarrow> (string \<times> tape) option" where
  "redraw s0 s1 s2 tp =
     (if s0 = s1 \<and> s1 = s2 then
        (case draw_symbol tp of
           None \<Rightarrow> None
         | Some (s2', tp') \<Rightarrow> redraw s0 s1 s2' tp')
      else Some (s2, tp))"
  by pat_completeness auto
termination
  by (relation "measure (\<lambda>(s0, s1, s2, tp). length tp)") (auto dest: draw_symbol_shorter)

declare redraw.simps [simp del]

text \<open>\<open>Generate\<close>: the legacy outcome, three draws, a full match pays \<open>WinMultiplier\<close>.\<close>

definition Generate :: "real \<Rightarrow> tape \<Rightarrow> (Outcome \<times> tape) option" where
  "Generate betAmount tp = do {
     (a, tp1) \<leftarrow> draw_symbol tp;
     (b, tp2) \<leftarrow> draw_symbol tp1;
     (c, tp3) \<leftarrow> draw_symbol tp2;
     let match = (a = b \<and> b = c);
     let winAmount = (if match then betAmount * WinMultiplier else 0);
     Some (\<lparr>out_Symbols = (a, b, c), out_WinAmount = winAmount,
            out_Match = match, out_Tier = []\<rparr>, tp3)
   }"

text \<open>The two renderings of \<open>GenerateWithMath\<close>: three symbols that are redrawn until they
  are not all equal, and one symbol three times.\<close>

definition render_lose :: "tape \<Rightarrow> ((string \<times> string \<times> string) \<times> tape) option" where
  "render_lose tp = do {
     (a, tp1) \<leftarrow> draw_symbol tp;
     (b, tp2) \<leftarrow> draw_symbol tp1;
     (c, tp3) \<leftarrow> draw_symbol tp2;
     (c', tp4) \<leftarrow> redraw a b c tp3;
     Some ((a, b, c'), tp4)
   }"

definition render_win :: "tape \<Rightarrow> ((string \<times> string \<times> string) \<times> tape) option" where
  "render_win tp = do {
     (sy, tp1) \<leftarrow> draw_symbol tp;
     Some ((sy, sy, sy), tp1)
   }"

text \<open>\<open>GenerateWithMath\<close>: \<open>((outcome, ok), rest of the tape)\<close>.\<close>

definition GenerateWithMath ::
  "real \<Rightarrow> GameMath option \<Rightarrow> tape \<Rightarrow> ((Outcome \<times> bool) \<times> tape) option" where
  "GenerateWithMath betAmount math tp =
     (if math = None then Some ((zero_Outcome, False), tp)
      else do {
        ((tier, ok), tp0) \<leftarrow> PickTier math tp;
        if \<not> ok then Some ((zero_Outcome, False), tp0)
        else do {
          let winAmount = betAmount * pt_Multiplier tier;
          (s, tp1) \<leftarrow> (if pt_Tier tier = ''LOSE'' \<or> pt_Multiplier tier = 0
                        then render_lose tp0 else render_win tp0);
          Some ((\<lparr>out_Symbols = s, out_WinAmount = winAmount,
                  out_Match = (0 < winAmount), out_Tier = pt_Tier tier\<rparr>, True), tp1)
        }
      })"

section \<open>Crash rounds\<close>

subsection \<open>Multiplier schedule and crash step (package crash)\<close>

definition StepSize :: real where
  "StepSize = 1 / 100"

definition CrashStepMin :: int where "CrashStepMin = 10"
definition CrashStepMax :: int where "CrashStepMax = 400"

definition Multiplier :: "int \<Rightarrow> real" where
  "Multiplier step = (let step = (if step < 0 then 0 else step) in 1 + real_of_int step * StepSize)"

definition GenerateCrashStep :: "tape \<Rightarrow> (int \<times> tape) option" where
  "GenerateCrashStep tp =
     (let n = CrashStepMax - CrashStepMin + 1 in
      case rand_Int (nat n) tp of
        None \<Rightarrow> None
      | Some (None, tp') \<Rightarrow> Some (CrashStepMin, tp')
      | Some (Some v, tp') \<Rightarrow> Some (CrashStepMin + int v, tp'))"

subsection \<open>The crash round store (package round)\<close>

text \<open>
  A \<open>time.Time\<close> is an instant in nanoseconds; \<open>time.Since\<close> is the difference to the
  clock reading of the call (saturation of \<open>Duration\<close> at about 292 years is not
  modelled). Go's integer division truncates toward zero: \<open>sdiv\<close>.
\<close>

type_synonym time = int

record CrashRound =
  cr_RoundID :: string
  cr_BetID :: string
  cr_Currency :: string
  cr_Amount :: real
  cr_CrashStep :: int
  cr_StartedAt :: time
  cr_Settled :: bool

text \<open>The map \<open>rounds\<close> of \<open>CrashStore\<close>. The store also rewrites \<open>crash_rounds.json\<close> after
  every change and discards the error (\<open>_ = s.save()\<close>): handlers only read the map.\<close>

type_synonym CrashStore = "string \<rightharpoonup> CrashRound"

definition CrashStore_Create ::
  "CrashStore \<Rightarrow> time \<Rightarrow> string \<Rightarrow> string \<Rightarrow> string \<Rightarrow> real \<Rightarrow> int \<Rightarrow> CrashRound \<times> CrashStore" where
  "CrashStore_Create s now roundID betID currency amount crashStep =
     (let r = \<lparr>cr_RoundID = roundID, cr_BetID = betID, cr_Currency = currency,
                cr_Amount = amount, cr_CrashStep = crashStep, cr_StartedAt = now,
                cr_Settled = False\<rparr>
      in (r, s(roundID \<mapsto> r)))"

definition CrashStore_Get :: "CrashStore \<Rightarrow> string \<Rightarrow> CrashRound option" where
  "CrashStore_Get s roundID = s roundID"

definition CrashStore_Settle :: "CrashStore \<Rightarrow> string \<Rightarrow> CrashStore" where
  "CrashStore_Settle s roundID =
     (case s roundID of
        Some r \<Rightarrow> s(roundID \<mapsto> r\<lparr>cr_Settled := True\<rparr>)
      | None \<Rightarrow> s)"

definition CrashStore_Delete :: "CrashStore \<Rightarrow> string \<Rightarrow> CrashStore" where
  "CrashStore_Delete s roundID = s(roundID := None)"

text \<open>\<open>load\<close>, run by \<open>NewCrashStore\<close> on the entries of the file (a JSON \<open>null\<close> entry is
  \<open>None\<close>): settled rounds and rounds without identifier are not loaded.\<close>

fun CrashStore_load :: "CrashRound option list \<Rightarrow> CrashStore \<Rightarrow> CrashStore" where
  "CrashStore_load [] s = s"
| "CrashStore_load (None # rs) s = CrashStore_load rs s"
| "CrashStore_load (Some r # rs) s =
     (if cr_RoundID r \<noteq> [] \<and> \<not> cr_Settled r
      then CrashStore_load rs (s(cr_RoundID r \<mapsto> r))
      else CrashStore_load rs s)"

definition Since :: "time \<Rightarrow> time \<Rightarrow> int" where
  "Since t now = now - t"

definition Milliseconds :: "int \<Rightarrow> int" where
  "Milliseconds d = d sdiv 1000000"

text \<open>The current step of both crash handlers:
  \<open>elapsed := time.Since(cr.StartedAt).Milliseconds(); currentStep := int(elapsed / 100)\<close>,
  raised to 0 when negative.\<close>

definition currentStep :: "time \<Rightarrow> CrashRound \<Rightarrow> int" where
  "currentStep now cr =
     (let elapsed = Milliseconds (Since (cr_StartedAt cr) now);
          step = elapsed sdiv 100
      in if step < 0 then 0 else step)"

subsection \<open>Wallet calls, responses and the server state\<close>

text \<open>
  The calls a handler makes to the platform client, the operator client and the wallet
  table are logged in the order they are made; what they answer is an input of the
  handler call.
\<close>

datatype wallet_call =
    Bet string string real string
  | Win string string real string
  | Rollback string string
  | Debit string string string string string string real
  | Credit string string string string string string real
  | WalletTxInsert string string string string string real string real real string int

datatype bet_answer = BetOk string | BetErr nat string

datatype win_answer = WinOk | WinErr string

datatype rollback_answer = RollbackOk | RollbackErr nat string

datatype op_answer = OpErr string | OpResp int string

datatype db_answer = DbUnavailable | DbNoSession | DbSession string string string int

record ScratchRoundStartResponse =
  sr_RoundID :: string
  sr_Symbols :: "string \<times> string \<times> string"
  sr_WinAmount :: real
  sr_BalanceDelta :: real
  sr_Tier :: string
  sr_Error :: string

record CrashRoundStartResponse =
  cs_RoundID :: string
  cs_StartedAtMs :: int

record CrashCashoutResponse =
  cc_RoundID :: string
  cc_CashedOut :: bool
  cc_WinAmount :: real
  cc_BalanceDelta :: real
  cc_Crashed :: bool
  cc_CrashStep :: int

record CrashStatusResponse =
  cst_roundId :: string
  cst_currentStep :: int
  cst_multiplier :: "real option"
  cst_crashed :: bool
  cst_crashStep :: "int option"
  cst_crashMultiplier :: "real option"

record roundStartResponse =
  hs_RoundID :: string
  hs_CurrentNumber :: int
  hs_BetID :: string
  hs_Error :: string

record roundEndResponse =
  he_Outcome :: string
  he_NextNumber :: int
  he_BalanceDelta :: real
  he_Error :: string

text \<open>\<open>writeError(w, status, errMsg, codeStr)\<close> and \<open>writeJSON(w, status, v)\<close>.\<close>

datatype response =
    APIError nat string string
  | ScratchJSON nat ScratchRoundStartResponse
  | CrashStartJSON nat CrashRoundStartResponse
  | CrashCashoutJSON nat CrashCashoutResponse
  | CrashStatusJSON nat CrashStatusResponse
  | RoundStartJSON nat roundStartResponse
  | RoundEndJSON nat roundEndResponse

definition StatusOK :: nat where "StatusOK = 200"
definition StatusBadRequest :: nat where "StatusBadRequest = 400"
definition StatusUnauthorized :: nat where "StatusUnauthorized = 401"
definition StatusNotFound :: nat where "StatusNotFound = 404"
definition StatusConflict :: nat where "StatusConflict = 409"
definition StatusBadGateway :: nat where "StatusBadGateway = 502"

subsection \<open>The settled-results log (package round)\<close>

record Result =
  res_RoundID :: string
  res_BetID :: string
  res_Outcome :: string
  res_NextNumber :: int
  res_BalanceDelta :: real
  res_SettledAt :: time
  res_Symbols :: "string list"
  res_WinAmount :: real

text \<open>
  The data directory of \<open>ResultsStore\<close> does not exist yet (\<open>NoDir\<close>), or exists and
  \<open>round_results.json\<close> is absent, holds something on which \<open>json.Unmarshal\<close> reports an
  error (with the entries it decodes all the same: none when the text is not JSON, as
  after a write that failed half-way), or holds a list of results. Entries are results:
  a \<open>null\<close> entry, which no \<open>Append\<close> writes, is outside the model, and a result is read
  back as it was written.

  The answers of the file system are inputs of each call: whether \<open>os.MkdirAll\<close> can
  create a missing directory (it succeeds on one that exists), whether \<open>os.ReadFile\<close>
  succeeds on a file that is there, and how \<open>os.WriteFile\<close> ends: it writes the file, or
  fails to open it and leaves it as it was, or fails after truncating it and leaves text
  that is not JSON.
\<close>

datatype results_file = NoFile | Unparsable "Result list" | Listed "Result list"

datatype ResultsStore = NoDir | Dir results_file

datatype write_answer = WriteOk | WriteOpenErr | WriteTruncErr

datatype error = MkdirError | ReadError | UnmarshalError | WriteError

definition ensureDir :: "ResultsStore \<Rightarrow> bool \<Rightarrow> error option \<times> ResultsStore" where
  "ensureDir rs mkdir_ok =
     (case rs of
        Dir f \<Rightarrow> (None, rs)
      | NoDir \<Rightarrow> if mkdir_ok then (None, Dir NoFile) else (Some MkdirError, NoDir))"

text \<open>\<open>Append\<close>: a failed read leaves \<open>list\<close> empty, the error of \<open>json.Unmarshal\<close> is
  discarded and what it decoded is kept, and the file is rewritten as the list with the
  new result at its end.\<close>

definition ResultsStore_Append ::
  "ResultsStore \<Rightarrow> bool \<Rightarrow> bool \<Rightarrow> write_answer \<Rightarrow> Result \<Rightarrow> error option \<times> ResultsStore" where
  "ResultsStore_Append rs mkdir_ok read_ok wr r =
     (case ensureDir rs mkdir_ok of
        (Some err, rs') \<Rightarrow> (Some err, rs')
      | (None, rs') \<Rightarrow>
          let list = (if read_ok
                      then (case rs' of
                              Dir (Listed l) \<Rightarrow> l
                            | Dir (Unparsable decoded) \<Rightarrow> decoded
                            | _ \<Rightarrow> [])
                      else []);
              list = list @ [r]
          in (case wr of
                WriteOk \<Rightarrow> (None, Dir (Listed list))
              | WriteOpenErr \<Rightarrow> (Some WriteError, rs')
              | WriteTruncErr \<Rightarrow> (Some WriteError, Dir (Unparsable []))))"

text \<open>The loop \<open>for i := len(list) - 1; i >= 0; i--\<close> of \<open>GetByRoundID\<close>: the last entry
  with the identifier.\<close>

fun last_with :: "Result list \<Rightarrow> string \<Rightarrow> Result option" where
  "last_with [] roundID = None"
| "last_with (x # xs) roundID =
     (case last_with xs roundID of
        Some y \<Rightarrow> Some y
      | None \<Rightarrow> if res_RoundID x = roundID then Some x else None)"

definition ResultsStore_GetByRoundID ::
  "ResultsStore \<Rightarrow> bool \<Rightarrow> bool \<Rightarrow> string \<Rightarrow> (error + Result option) \<times> ResultsStore" where
  "ResultsStore_GetByRoundID rs mkdir_ok read_ok roundID =
     (case ensureDir rs mkdir_ok of
        (Some err, rs') \<Rightarrow> (Inl err, rs')
      | (None, rs') \<Rightarrow>
          if \<not> read_ok then (Inl ReadError, rs')
          else
            (case rs' of
               Dir (Listed list) \<Rightarrow> (Inr (last_with list roundID), rs')
             | Dir (Unparsable decoded) \<Rightarrow> (Inl UnmarshalError, rs')
             | _ \<Rightarrow> (Inl ReadError, rs')))"

subsection \<open>The Hi/Lo round store (package round)\<close>

record Round =
  rd_RoundID :: string
  rd_BetID :: string
  rd_Currency :: string
  rd_Amount :: real
  rd_CurrentNumber :: int
  rd_CreatedAt :: time

definition minNum :: int where "minNum = 1"
definition maxNum :: int where "maxNum = 10"

definition NextNumber :: "tape \<Rightarrow> (int \<times> tape) option" where
  "NextNumber tp =
     (let size = maxNum - minNum + 1 in
      case secureIntn size tp of
        None \<Rightarrow> None
      | Some (i, tp') \<Rightarrow> Some (minNum + i, tp'))"

text \<open>The map \<open>rounds\<close> of \<open>Store\<close>; as for \<open>CrashStore\<close>, the error of saving it is discarded.\<close>

type_synonym RoundStore = "string \<rightharpoonup> Round"

definition Store_Create ::
  "RoundStore \<Rightarrow> time \<Rightarrow> tape \<Rightarrow> string \<Rightarrow> string \<Rightarrow> string \<Rightarrow> real \<Rightarrow> (Round \<times> RoundStore) option" where
  "Store_Create s now tp roundID betID currency amount =
     (case NextNumber tp of
        None \<Rightarrow> None
      | Some (num, tp') \<Rightarrow>
          let r = \<lparr>rd_RoundID = roundID, rd_BetID = betID, rd_Currency = currency,
                   rd_Amount = amount, rd_CurrentNumber = num, rd_CreatedAt = now\<rparr>
          in Some (r, s(roundID \<mapsto> r)))"

definition Store_Get :: "RoundStore \<Rightarrow> string \<Rightarrow> Round option" where
  "Store_Get s roundID = s roundID"

definition Store_Delete :: "RoundStore \<Rightarrow> string \<Rightarrow> RoundStore" where
  "Store_Delete s roundID = s(roundID := None)"

subsection \<open>The math model store (package gamemath)\<close>

text \<open>The map \<open>math\<close> of \<open>gamemath.Store\<close>; \<open>Register\<close> and \<open>load\<close> keep \<open>nil\<close> out of it.
  \<open>Register\<close> returns the error of writing \<open>game_math.json\<close>, an answer of the environment.\<close>

type_synonym MathStore = "string \<rightharpoonup> GameMath"

definition MathStore_Register :: "MathStore \<Rightarrow> bool \<Rightarrow> GameMath option \<Rightarrow> error option \<times> MathStore" where
  "MathStore_Register s write_ok math =
     (case math of
        None \<Rightarrow> (None, s)
      | Some m \<Rightarrow>
          if gm_ModelID m = [] then (None, s)
          else (if write_ok then None else Some WriteError, s(gm_ModelID m \<mapsto> m)))"

definition MathStore_Get :: "MathStore \<Rightarrow> string \<Rightarrow> GameMath option" where
  "MathStore_Get s modelID = s modelID"

subsection \<open>Server state\<close>

text \<open>The fields of \<open>Server\<close> the handlers below use (\<open>s_operator\<close>: \<open>s.operator != nil\<close>),
  and the log of the wallet calls made so far.\<close>

record server =
  s_operator :: bool
  s_store :: RoundStore
  s_results :: ResultsStore
  s_crashStore :: CrashStore
  s_gameMath :: MathStore
  s_calls :: "wallet_call list"

section \<open>Crash handlers (package server)\<close>

text \<open>
  A request record holds the decoded body with \<open>strings.TrimSpace\<close> already applied to
  the fields the handler trims; decoding failures (\<open>INVALID_BODY\<close>) are outside the model.
  Every handler takes the state, the answers of the environment to this call, and the
  request, and returns the response and the new state.
\<close>

record CrashRoundStartRequest =
  crs_Token :: string
  crs_Currency :: string
  crs_Amount :: real
  crs_RoundID :: string

record start_env =
  se_bet :: bet_answer
  se_uuid :: string
  se_tape :: tape
  se_now :: time

definition handleCrashRoundStart ::
  "server \<Rightarrow> start_env \<Rightarrow> CrashRoundStartRequest \<Rightarrow> (response \<times> server) option" where
  "handleCrashRoundStart s env req =
     (if crs_Token req = [] then
        Some (APIError StatusUnauthorized ''token required'' ''TOKEN_REQUIRED'', s)
      else
        let currency = (if crs_Currency req = [] then ''USD'' else crs_Currency req) in
        if crs_Amount req \<le> 0 then
          Some (APIError StatusBadRequest ''amount must be positive'' ''INVALID_AMOUNT'', s)
        else
          let roundID = (if crs_RoundID req = [] then se_uuid env else crs_RoundID req);
              s1 = s\<lparr>s_calls := s_calls s @ [Bet (crs_Token req) currency (crs_Amount req) ''Crash'']\<rparr>
          in case se_bet env of
               BetErr status msg \<Rightarrow>
                 Some (APIError (if status = 0 then StatusBadGateway else status) msg ''BET_FAILED'', s1)
             | BetOk betID \<Rightarrow> do {
                 (crashStep, tp') \<leftarrow> GenerateCrashStep (se_tape env);
                 let (cr, store) = CrashStore_Create (s_crashStore s1) (se_now env)
                                     roundID betID currency (crs_Amount req) crashStep;
                 Some (CrashStartJSON StatusOK
                         \<lparr>cs_RoundID = cr_RoundID cr, cs_StartedAtMs = cr_StartedAt cr div 1000000\<rparr>,
                       s1\<lparr>s_crashStore := store\<rparr>)
               })"

record CrashCashoutRequest =
  cco_Token :: string
  cco_RoundID :: string
  cco_Step :: int

record cashout_env =
  ce_now :: time
  ce_win :: win_answer

definition handleCrashCashout ::
  "server \<Rightarrow> cashout_env \<Rightarrow> CrashCashoutRequest \<Rightarrow> response \<times> server" where
  "handleCrashCashout s env req =
     (if cco_Token req = [] then
        (APIError StatusUnauthorized ''token required'' ''TOKEN_REQUIRED'', s)
      else if cco_RoundID req = [] then
        (APIError StatusBadRequest ''roundId required'' ''INVALID_ROUND'', s)
      else case CrashStore_Get (s_crashStore s) (cco_RoundID req) of
        None \<Rightarrow> (APIError StatusNotFound ''round not found'' ''ROUND_NOT_FOUND'', s)
      | Some cr \<Rightarrow>
          if cr_Settled cr then
            (APIError StatusConflict ''round already settled'' ''ROUND_SETTLED'', s)
          else if cco_Step req > currentStep (ce_now env) cr then
            (APIError StatusBadRequest ''cannot cash out in the future'' ''INVALID_STEP'', s)
          else
            let step = (if cco_Step req < 0 then 0 else cco_Step req) in
            if step \<ge> cr_CrashStep cr then
              (CrashCashoutJSON StatusOK
                 \<lparr>cc_RoundID = cco_RoundID req, cc_CashedOut = False, cc_WinAmount = 0,
                  cc_BalanceDelta = - cr_Amount cr, cc_Crashed = True,
                  cc_CrashStep = cr_CrashStep cr\<rparr>,
               s\<lparr>s_crashStore := CrashStore_Settle (s_crashStore s) (cco_RoundID req)\<rparr>)
            else
              let mult = Multiplier step;
                  winAmount = cr_Amount cr * mult;
                  s1 = s\<lparr>s_calls := s_calls s @ [Win (cco_Token req) (cr_Currency cr) winAmount ''Crash'']\<rparr>
              in (case ce_win env of
                    WinErr msg \<Rightarrow> (APIError StatusBadGateway msg ''WIN_FAILED'', s1)
                  | WinOk \<Rightarrow>
                      (CrashCashoutJSON StatusOK
                         \<lparr>cc_RoundID = cco_RoundID req, cc_CashedOut = True, cc_WinAmount = winAmount,
                          cc_BalanceDelta = winAmount - cr_Amount cr, cc_Crashed = False,
                          cc_CrashStep = 0\<rparr>,
                       s1\<lparr>s_crashStore := CrashStore_Settle (s_crashStore s1) (cco_RoundID req)\<rparr>)))"

text \<open>\<open>handleCrashStatus\<close>, with the query parameters \<open>roundId\<close> and \<open>token\<close> (trimmed) and the
  clock reading of the call.\<close>

definition handleCrashStatus :: "server \<Rightarrow> time \<Rightarrow> string \<Rightarrow> string \<Rightarrow> response \<times> server" where
  "handleCrashStatus s now roundID token =
     (if roundID = [] \<or> token = [] then
        (APIError StatusBadRequest ''roundId and token required'' ''INVALID_REQUEST'', s)
      else case CrashStore_Get (s_crashStore s) roundID of
        None \<Rightarrow>
          (CrashStatusJSON StatusOK
             \<lparr>cst_roundId = roundID, cst_currentStep = 0, cst_multiplier = None,
              cst_crashed = False, cst_crashStep = None, cst_crashMultiplier = None\<rparr>, s)
      | Some cr \<Rightarrow>
          let step = currentStep now cr;
              crashed = (step \<ge> cr_CrashStep cr);
              s1 = (if crashed then s\<lparr>s_crashStore := CrashStore_Settle (s_crashStore s) roundID\<rparr> else s)
          in (CrashStatusJSON StatusOK
                \<lparr>cst_roundId = roundID, cst_currentStep = step,
                 cst_multiplier = Some (Multiplier step), cst_crashed = crashed,
                 cst_crashStep = (if crashed then Some (cr_CrashStep cr) else None),
                 cst_crashMultiplier = (if crashed then Some (Multiplier (cr_CrashStep cr)) else None)\<rparr>,
              s1))"

section \<open>The instant (scratch) round handler (package server)\<close>

record ScratchRoundStartRequest =
  sq_SessionID :: string
  sq_BetAmount :: real
  sq_RoundID :: string
  sq_GameCode :: string
  sq_DeviceType :: string
  sq_Currency :: string
  sq_Token :: string
  sq_Amount :: real
  sq_RoundId :: string
  sq_QuerySessionID :: string

text \<open>The answers of the environment to one call: the identifiers \<open>uuid.New()\<close> returns,
  the tape of \<open>crypto/rand\<close>, the clock, the session lookup, the wallet answers, and
  what \<open>os.MkdirAll\<close> and \<open>os.ReadFile\<close> (in \<open>GetByRoundID\<close>, in \<open>Append\<close>) and \<open>os.WriteFile\<close>
  answer.\<close>

record scratch_env =
  sc_uuid_round :: string
  sc_uuid_debit :: string
  sc_uuid_credit :: string
  sc_tape :: tape
  sc_now :: time
  sc_db :: db_answer
  sc_debit :: op_answer
  sc_credit :: op_answer
  sc_bet :: bet_answer
  sc_win :: win_answer
  sc_mkdir_get :: bool
  sc_read_get :: bool
  sc_mkdir_append :: bool
  sc_read_append :: bool
  sc_write :: write_answer

text \<open>The values the handler has normalised when it reaches the replay check.\<close>

record scratch_params =
  sp_sessionID :: string
  sp_currency :: string
  sp_betAmount :: real
  sp_roundID :: string
  sp_deviceType :: string
  sp_gameCode :: string

definition maxBet :: real where
  "maxBet = 1000000"

text \<open>Normalisation and validation, up to the replay check: an error response or the
  normalised values.\<close>

definition scratch_normalize ::
  "string \<Rightarrow> scratch_env \<Rightarrow> ScratchRoundStartRequest \<Rightarrow> response + scratch_params" where
  "scratch_normalize gameID env req =
     (let sessionID = sq_SessionID req;
          sessionID = (if sessionID = [] then sq_Token req else sessionID);
          sessionID = (if sessionID = [] then sq_QuerySessionID req else sessionID)
      in
      if sessionID = [] then
        Inl (APIError StatusUnauthorized ''session_id or token required'' ''TOKEN_REQUIRED'')
      else if length sessionID > 512 then
        Inl (APIError StatusBadRequest ''session_id too long'' ''INVALID_REQUEST'')
      else
        let currency = (if sq_Currency req = [] then ''USD'' else sq_Currency req);
            betAmount = sq_BetAmount req;
            betAmount = (if betAmount \<le> 0 then sq_Amount req else betAmount)
        in
        if betAmount \<le> 0 then
          Inl (APIError StatusBadRequest ''bet_amount or amount must be positive'' ''INVALID_AMOUNT'')
        else if betAmount > maxBet then
          Inl (APIError StatusBadRequest ''bet_amount exceeds maximum'' ''INVALID_AMOUNT'')
        else
          let roundID = sq_RoundID req;
              roundID = (if roundID = [] then sq_RoundId req else roundID);
              roundID = (if roundID = [] then sc_uuid_round env else roundID);
              deviceType = (if sq_DeviceType req = [] then ''desktop'' else sq_DeviceType req);
              deviceType = (if deviceType \<noteq> ''desktop'' \<and> deviceType \<noteq> ''mobile''
                            then ''desktop'' else deviceType);
              gameCode = (if sq_GameCode req = [] then gameID else sq_GameCode req)
          in Inr \<lparr>sp_sessionID = sessionID, sp_currency = currency, sp_betAmount = betAmount,
                   sp_roundID = roundID, sp_deviceType = deviceType, sp_gameCode = gameCode\<rparr>)"

text \<open>The response of the replay branch: the first three recorded symbols (\<open>""\<close> where the
  record has fewer), no tier.\<close>

definition symbol_at :: "string list \<Rightarrow> nat \<Rightarrow> string" where
  "symbol_at l i = (if i < length l then l ! i else [])"

definition scratch_replay :: "Result \<Rightarrow> ScratchRoundStartResponse" where
  "scratch_replay existing =
     \<lparr>sr_RoundID = res_RoundID existing,
      sr_Symbols = (symbol_at (res_Symbols existing) 0, symbol_at (res_Symbols existing) 1,
                    symbol_at (res_Symbols existing) 2),
      sr_WinAmount = res_WinAmount existing,
      sr_BalanceDelta = res_BalanceDelta existing,
      sr_Tier = [], sr_Error = []\<rparr>"

text \<open>The choice of the outcome: the stored math of the game, else the legacy generator.\<close>

definition scratch_outcome :: "MathStore \<Rightarrow> string \<Rightarrow> real \<Rightarrow> tape \<Rightarrow> Outcome option" where
  "scratch_outcome store gameID betAmount tp =
     (case MathStore_Get store gameID of
        Some math \<Rightarrow> do {
          ((out, ok), tp') \<leftarrow> GenerateWithMath betAmount (Some math) tp;
          if ok then Some out else map_option fst (Generate betAmount tp')
        }
      | None \<Rightarrow> map_option fst (Generate betAmount tp))"

definition scratch_error_response ::
  "scratch_params \<Rightarrow> Outcome \<Rightarrow> real \<Rightarrow> string \<Rightarrow> response" where
  "scratch_error_response p out winAmount msg =
     ScratchJSON StatusOK
       \<lparr>sr_RoundID = sp_roundID p, sr_Symbols = out_Symbols out, sr_WinAmount = winAmount,
        sr_BalanceDelta = 0, sr_Tier = out_Tier out, sr_Error = msg\<rparr>"

text \<open>\<open>errMsg\<close> of a failed operator call: the message of the response if there is one,
  else the text of the error, else the default.\<close>

definition op_failed :: "op_answer \<Rightarrow> bool" where
  "op_failed a = (case a of OpErr e \<Rightarrow> True | OpResp code msg \<Rightarrow> code \<noteq> 0)"

definition op_errMsg :: "string \<Rightarrow> op_answer \<Rightarrow> string" where
  "op_errMsg dflt a = (case a of OpErr e \<Rightarrow> e | OpResp code msg \<Rightarrow> if msg \<noteq> [] then msg else dflt)"

text \<open>The branch \<open>s.operator != nil\<close>: session lookup, debit, credit, wallet row. An early
  response, or the balance delta.\<close>

definition scratch_operator ::
  "server \<Rightarrow> scratch_env \<Rightarrow> scratch_params \<Rightarrow> Outcome \<Rightarrow> (response \<times> server) + (real \<times> server)" where
  "scratch_operator s env p out =
     (case sc_db env of
        DbUnavailable \<Rightarrow> Inl (APIError StatusBadGateway ''database unavailable'' ''TECHNICAL_ERROR'', s)
      | DbNoSession \<Rightarrow> Inl (scratch_error_response p out (out_WinAmount out) ''invalid session'', s)
      | DbSession userID accountID dbGameCode operatorID \<Rightarrow>
          let gameCode = (if sp_gameCode p = ''scratch'' \<and> dbGameCode \<noteq> [] then dbGameCode
                          else sp_gameCode p);
              winAmount = out_WinAmount out;
              s1 = s\<lparr>s_calls := s_calls s @
                     [Debit userID (sp_sessionID p) (sp_roundID p) (sc_uuid_debit env) gameCode
                        (sp_deviceType p) (sp_betAmount p)]\<rparr>
          in
          if op_failed (sc_debit env) then
            Inl (scratch_error_response p out 0 (op_errMsg ''debit failed'' (sc_debit env)), s1)
          else
            let s2 = s1\<lparr>s_calls := s_calls s1 @
                       [Credit userID (sp_sessionID p) (sp_roundID p) (sc_uuid_credit env) gameCode
                          (sp_deviceType p) winAmount]\<rparr>
            in
            if op_failed (sc_credit env) then
              Inl (scratch_error_response p out 0 (op_errMsg ''credit failed'' (sc_credit env)), s2)
            else
              let netResult = winAmount - sp_betAmount p;
                  netResult = (if netResult = 0 then - sp_betAmount p else netResult);
                  s3 = s2\<lparr>s_calls := s_calls s2 @
                         [WalletTxInsert (sc_uuid_debit env) accountID (sp_sessionID p) (sp_roundID p)
                            gameCode (sp_betAmount p) (sp_currency p) winAmount netResult userID
                            operatorID]\<rparr>
              in Inr (if winAmount > 0 then winAmount - sp_betAmount p else - sp_betAmount p, s3))"

text \<open>The branch \<open>s.operator == nil\<close>: bet, then win on a match (rollback when the win fails).\<close>

definition scratch_client ::
  "server \<Rightarrow> scratch_env \<Rightarrow> scratch_params \<Rightarrow> Outcome \<Rightarrow> (response \<times> server) + (real \<times> server)" where
  "scratch_client s env p out =
     (let s1 = s\<lparr>s_calls := s_calls s @
                  [Bet (sp_sessionID p) (sp_currency p) (sp_betAmount p) ''Scratch'']\<rparr>
      in case sc_bet env of
           BetErr status msg \<Rightarrow>
             Inl (APIError (if status = 0 then StatusBadGateway else status) msg ''BET_FAILED'', s1)
         | BetOk betID \<Rightarrow>
             if out_Match out then
               let s2 = s1\<lparr>s_calls := s_calls s1 @
                          [Win (sp_sessionID p) (sp_currency p) (out_WinAmount out) ''Scratch'']\<rparr>
               in (case sc_win env of
                     WinErr msg \<Rightarrow>
                       Inl (APIError StatusBadGateway msg ''WIN_FAILED'',
                            s2\<lparr>s_calls := s_calls s2 @ [Rollback (sp_sessionID p) betID]\<rparr>)
                   | WinOk \<Rightarrow> Inr (out_WinAmount out - sp_betAmount p, s2))
             else Inr (- sp_betAmount p, s1))"

text \<open>The end of the handler: the result (\<open>scratch_result\<close>) is appended to the log, the
  error of \<open>Append\<close> is discarded (\<open>_ = s.results.Append(...)\<close>), and the outcome is written
  to the caller.\<close>

definition scratch_result :: "scratch_env \<Rightarrow> scratch_params \<Rightarrow> Outcome \<Rightarrow> real \<Rightarrow> Result" where
  "scratch_result env p out balanceDelta =
     (let outcomeStr = (if out_Match out then ''win'' else ''lose'');
          (a, b, c) = out_Symbols out
      in \<lparr>res_RoundID = sp_roundID p, res_BetID = [], res_Outcome = outcomeStr,
          res_NextNumber = 0, res_BalanceDelta = balanceDelta,
          res_SettledAt = sc_now env, res_Symbols = [a, b, c],
          res_WinAmount = out_WinAmount out\<rparr>)"

definition scratch_record ::
  "server \<Rightarrow> scratch_env \<Rightarrow> scratch_params \<Rightarrow> Outcome \<Rightarrow> real \<Rightarrow> response \<times> server" where
  "scratch_record s env p out balanceDelta =
     (let (err, rs) = ResultsStore_Append (s_results s) (sc_mkdir_append env)
                        (sc_read_append env) (sc_write env)
                        (scratch_result env p out balanceDelta)
      in (ScratchJSON StatusOK
            \<lparr>sr_RoundID = sp_roundID p, sr_Symbols = out_Symbols out,
             sr_WinAmount = out_WinAmount out, sr_BalanceDelta = balanceDelta,
             sr_Tier = out_Tier out, sr_Error = []\<rparr>,
          s\<lparr>s_results := rs\<rparr>))"

text \<open>The handler from the wallet calls on, for a given outcome.\<close>

definition scratch_settle ::
  "server \<Rightarrow> scratch_env \<Rightarrow> scratch_params \<Rightarrow> Outcome \<Rightarrow> response \<times> server" where
  "scratch_settle s env p out =
     (case (if s_operator s then scratch_operator s env p out else scratch_client s env p out) of
        Inl early \<Rightarrow> early
      | Inr (balanceDelta, s') \<Rightarrow> scratch_record s' env p out balanceDelta)"

text \<open>\<open>handleScratchRoundStart\<close> for the game \<open>gameID\<close> of the URL. \<open>None\<close>: the tape is
  too short for the draws of this call.\<close>

definition handleScratchRoundStart ::
  "server \<Rightarrow> string \<Rightarrow> scratch_env \<Rightarrow> ScratchRoundStartRequest \<Rightarrow> (response \<times> server) option" where
  "handleScratchRoundStart s gameID env req =
     (case scratch_normalize gameID env req of
        Inl resp \<Rightarrow> Some (resp, s)
      | Inr p \<Rightarrow>
          (case ResultsStore_GetByRoundID (s_results s) (sc_mkdir_get env) (sc_read_get env)
                  (sp_roundID p) of
             (Inr (Some existing), rs) \<Rightarrow>
               Some (ScratchJSON StatusOK (scratch_replay existing), s\<lparr>s_results := rs\<rparr>)
           | (_, rs) \<Rightarrow> do {
               out \<leftarrow> scratch_outcome (s_gameMath s) gameID (sp_betAmount p) (sc_tape env);
               Some (scratch_settle (s\<lparr>s_results := rs\<rparr>) env p out)
             }))"

section \<open>The Hi/Lo handlers (package server)\<close>

text \<open>\<open>roundStart\<close> and \<open>roundEnd\<close> write their results to the same log as the scratch
  handler, under the round identifier of the request. A bet or win with an empty game
  name goes under the client's default name.\<close>

record roundStartRequest =
  hq_Token :: string
  hq_Currency :: string
  hq_Amount :: real
  hq_RoundID :: string

definition hilo_error :: "string \<Rightarrow> roundStartResponse" where
  "hilo_error msg = \<lparr>hs_RoundID = [], hs_CurrentNumber = 0, hs_BetID = [], hs_Error = msg\<rparr>"

definition roundStart ::
  "server \<Rightarrow> start_env \<Rightarrow> roundStartRequest \<Rightarrow> (response \<times> server) option" where
  "roundStart s env req =
     (if hq_Token req = [] then
        Some (RoundStartJSON StatusUnauthorized (hilo_error ''token required''), s)
      else
        let currency = (if hq_Currency req = [] then ''USD'' else hq_Currency req) in
        if hq_Amount req \<le> 0 then
          Some (RoundStartJSON StatusBadRequest (hilo_error ''amount must be positive''), s)
        else
          let roundID = (if hq_RoundID req = [] then se_uuid env else hq_RoundID req);
              s1 = s\<lparr>s_calls := s_calls s @ [Bet (hq_Token req) currency (hq_Amount req) []]\<rparr>
          in case se_bet env of
               BetErr status msg \<Rightarrow>
                 Some (RoundStartJSON (if status = 0 then StatusBadGateway else status)
                         (hilo_error msg), s1)
             | BetOk betID \<Rightarrow>
                 (case Store_Create (s_store s1) (se_now env) (se_tape env) roundID betID currency
                         (hq_Amount req) of
                    None \<Rightarrow> None
                  | Some (rd, store) \<Rightarrow>
                      Some (RoundStartJSON StatusOK
                              \<lparr>hs_RoundID = rd_RoundID rd,
                               hs_CurrentNumber = rd_CurrentNumber rd,
                               hs_BetID = rd_BetID rd, hs_Error = []\<rparr>,
                            s1\<lparr>s_store := store\<rparr>)))"

text \<open>The request of \<open>roundEnd\<close>, with the choice trimmed and in lower case.\<close>

record roundEndRequest =
  hr_Token :: string
  hr_RoundID :: string
  hr_Choice :: string

record end_env =
  ee_tape :: tape
  ee_now :: time
  ee_win :: win_answer
  ee_rollback :: rollback_answer
  ee_mkdir_append :: bool
  ee_read_append :: bool
  ee_write :: write_answer

definition hilo_end_error :: "string \<Rightarrow> roundEndResponse" where
  "hilo_end_error msg = \<lparr>he_Outcome = [], he_NextNumber = 0, he_BalanceDelta = 0, he_Error = msg\<rparr>"

text \<open>The end of \<open>roundEnd\<close> once outcome and delta are known: the result is appended (the
  error discarded) and the outcome written.\<close>

definition roundEnd_record ::
  "server \<Rightarrow> end_env \<Rightarrow> roundEndRequest \<Rightarrow> Round \<Rightarrow> string \<Rightarrow> int \<Rightarrow> real \<Rightarrow> response \<times> server" where
  "roundEnd_record s env req rnd outcome nextNum delta =
     (let (err, rs) = ResultsStore_Append (s_results s) (ee_mkdir_append env)
                        (ee_read_append env) (ee_write env)
                        \<lparr>res_RoundID = hr_RoundID req, res_BetID = rd_BetID rnd,
                         res_Outcome = outcome, res_NextNumber = nextNum,
                         res_BalanceDelta = delta, res_SettledAt = ee_now env,
                         res_Symbols = [], res_WinAmount = 0\<rparr>
      in (RoundEndJSON StatusOK
            \<lparr>he_Outcome = outcome, he_NextNumber = nextNum, he_BalanceDelta = delta,
             he_Error = []\<rparr>,
          s\<lparr>s_results := rs\<rparr>))"

text \<open>\<open>roundEnd\<close>. From \<open>defer s.store.Delete(req.RoundID)\<close> on, every return deletes the
  round.\<close>

definition roundEnd ::
  "server \<Rightarrow> end_env \<Rightarrow> roundEndRequest \<Rightarrow> (response \<times> server) option" where
  "roundEnd s env req =
     (if hr_Token req = [] then
        Some (RoundEndJSON StatusUnauthorized (hilo_end_error ''token required''), s)
      else if hr_RoundID req = [] then
        Some (RoundEndJSON StatusBadRequest (hilo_end_error ''roundId required''), s)
      else if hr_Choice req \<noteq> ''higher'' \<and> hr_Choice req \<noteq> ''lower'' then
        Some (RoundEndJSON StatusBadRequest (hilo_end_error ''choice must be higher or lower''), s)
      else case Store_Get (s_store s) (hr_RoundID req) of
        None \<Rightarrow>
          Some (RoundEndJSON StatusNotFound (hilo_end_error ''round not found or already settled''), s)
      | Some rnd \<Rightarrow>
          (case NextNumber (ee_tape env) of
             None \<Rightarrow> None
           | Some (nextNum, tp') \<Rightarrow>
               let sd = s\<lparr>s_store := Store_Delete (s_store s) (hr_RoundID req)\<rparr>;
                   current = rd_CurrentNumber rnd;
                   win = ((hr_Choice req = ''higher'' \<and> nextNum > current) \<or>
                          (hr_Choice req = ''lower'' \<and> nextNum < current));
                   push = (nextNum = current)
               in
               if push then
                 (let s1 = sd\<lparr>s_calls := s_calls sd @ [Rollback (hr_Token req) (rd_BetID rnd)]\<rparr>
                  in case ee_rollback env of
                       RollbackErr status msg \<Rightarrow>
                         Some (RoundEndJSON (if status = 0 then StatusBadGateway else status)
                                 (hilo_end_error msg), s1)
                     | RollbackOk \<Rightarrow> Some (roundEnd_record s1 env req rnd ''push'' nextNum 0))
               else if win then
                 (let s1 = sd\<lparr>s_calls := s_calls sd @
                             [Win (hr_Token req) (rd_Currency rnd) (rd_Amount rnd) []]\<rparr>
                  in case ee_win env of
                       WinErr msg \<Rightarrow>
                         Some (RoundEndJSON StatusBadGateway (hilo_end_error msg), s1)
                     | WinOk \<Rightarrow>
                         Some (roundEnd_record s1 env req rnd ''win'' nextNum (rd_Amount rnd)))
               else Some (roundEnd_record sd env req rnd ''lose'' nextNum (- rd_Amount rnd))))"

section \<open>Sequences of calls and interleaved calls\<close>

text \<open>Requests to the crash handlers, each with the answers of the environment to it, and
  the state after a sequence of them (\<open>None\<close>: a tape was too short).\<close>

datatype crash_request =
    ReqStart start_env CrashRoundStartRequest
  | ReqCashout cashout_env CrashCashoutRequest
  | ReqStatus time string string

fun crash_call :: "server \<Rightarrow> crash_request \<Rightarrow> (response \<times> server) option" where
  "crash_call s (ReqStart env req) = handleCrashRoundStart s env req"
| "crash_call s (ReqCashout env req) = Some (handleCrashCashout s env req)"
| "crash_call s (ReqStatus now roundID token) = Some (handleCrashStatus s now roundID token)"

fun crash_run :: "server \<Rightarrow> crash_request list \<Rightarrow> server option" where
  "crash_run s [] = Some s"
| "crash_run s (q # qs) =
     (case crash_call s q of None \<Rightarrow> None | Some (resp, s') \<Rightarrow> crash_run s' qs)"

text \<open>The request is a round start under the identifier \<open>r\<close> (given, or generated).\<close>

fun starts_round :: "crash_request \<Rightarrow> string \<Rightarrow> bool" where
  "starts_round (ReqStart env req) r =
     ((if crs_RoundID req = [] then se_uuid env else crs_RoundID req) = r)"
| "starts_round _ r = False"

text \<open>Requests to any of the handlers (a scratch request with the game of its URL), and
  the state after a sequence of them.\<close>

datatype request =
    ReqScratch string scratch_env ScratchRoundStartRequest
  | ReqRoundStart start_env roundStartRequest
  | ReqRoundEnd end_env roundEndRequest
  | ReqCrash crash_request

fun server_call :: "server \<Rightarrow> request \<Rightarrow> (response \<times> server) option" where
  "server_call s (ReqScratch gameID env req) = handleScratchRoundStart s gameID env req"
| "server_call s (ReqRoundStart env req) = roundStart s env req"
| "server_call s (ReqRoundEnd env req) = roundEnd s env req"
| "server_call s (ReqCrash q) = crash_call s q"

fun server_run :: "server \<Rightarrow> request list \<Rightarrow> server option" where
  "server_run s [] = Some s"
| "server_run s (q # qs) =
     (case server_call s q of None \<Rightarrow> None | Some (resp, s') \<Rightarrow> server_run s' qs)"

text \<open>
  Calls that run at the same time. \<open>CrashStore\<close> guards each of \<open>Get\<close> and \<open>Settle\<close> with its
  mutex, and a handler does not hold the mutex between them; \<open>client.Win\<close> is a call to
  the wallet. A cashout is therefore a sequence of up to three steps, a status query of up
  to two, and steps of different calls interleave. The first step takes \<open>Get\<close> together
  with the reads of the round it returns (in the code these reads follow \<open>Get\<close> outside the
  mutex), so every run of this model is a run of the code.
\<close>

datatype thread =
    CashoutStart cashout_env CrashCashoutRequest
  | CashoutSettleLoss CrashCashoutRequest CrashRound
  | CashoutWin cashout_env CrashCashoutRequest CrashRound real
  | CashoutSettleWin CrashCashoutRequest CrashRound real
  | StatusStart time string string
  | StatusSettle string CrashStatusResponse
  | Finished response

fun thread_step :: "server \<Rightarrow> thread \<Rightarrow> server \<times> thread" where
  "thread_step s (CashoutStart env req) =
     (if cco_Token req = [] then
        (s, Finished (APIError StatusUnauthorized ''token required'' ''TOKEN_REQUIRED''))
      else if cco_RoundID req = [] then
        (s, Finished (APIError StatusBadRequest ''roundId required'' ''INVALID_ROUND''))
      else case CrashStore_Get (s_crashStore s) (cco_RoundID req) of
        None \<Rightarrow> (s, Finished (APIError StatusNotFound ''round not found'' ''ROUND_NOT_FOUND''))
      | Some cr \<Rightarrow>
          if cr_Settled cr then
            (s, Finished (APIError StatusConflict ''round already settled'' ''ROUND_SETTLED''))
          else if cco_Step req > currentStep (ce_now env) cr then
            (s, Finished (APIError StatusBadRequest ''cannot cash out in the future'' ''INVALID_STEP''))
          else
            let step = (if cco_Step req < 0 then 0 else cco_Step req) in
            if step \<ge> cr_CrashStep cr then (s, CashoutSettleLoss req cr)
            else (s, CashoutWin env req cr (cr_Amount cr * Multiplier step)))"
| "thread_step s (CashoutSettleLoss req cr) =
     (s\<lparr>s_crashStore := CrashStore_Settle (s_crashStore s) (cco_RoundID req)\<rparr>,
      Finished (CrashCashoutJSON StatusOK
        \<lparr>cc_RoundID = cco_RoundID req, cc_CashedOut = False, cc_WinAmount = 0,
         cc_BalanceDelta = - cr_Amount cr, cc_Crashed = True, cc_CrashStep = cr_CrashStep cr\<rparr>))"
| "thread_step s (CashoutWin env req cr winAmount) =
     (let s1 = s\<lparr>s_calls := s_calls s @ [Win (cco_Token req) (cr_Currency cr) winAmount ''Crash'']\<rparr>
      in case ce_win env of
           WinErr msg \<Rightarrow> (s1, Finished (APIError StatusBadGateway msg ''WIN_FAILED''))
         | WinOk \<Rightarrow> (s1, CashoutSettleWin req cr winAmount))"
| "thread_step s (CashoutSettleWin req cr winAmount) =
     (s\<lparr>s_crashStore := CrashStore_Settle (s_crashStore s) (cco_RoundID req)\<rparr>,
      Finished (CrashCashoutJSON StatusOK
        \<lparr>cc_RoundID = cco_RoundID req, cc_CashedOut = True, cc_WinAmount = winAmount,
         cc_BalanceDelta = winAmount - cr_Amount cr, cc_Crashed = False, cc_CrashStep = 0\<rparr>))"
| "thread_step s (StatusStart now roundID token) =
     (if roundID = [] \<or> token = [] then
        (s, Finished (APIError StatusBadRequest ''roundId and token required'' ''INVALID_REQUEST''))
      else case CrashStore_Get (s_crashStore s) roundID of
        None \<Rightarrow>
          (s, Finished (CrashStatusJSON StatusOK
             \<lparr>cst_roundId = roundID, cst_currentStep = 0, cst_multiplier = None,
              cst_crashed = False, cst_crashStep = None, cst_crashMultiplier = None\<rparr>))
      | Some cr \<Rightarrow>
          let step = currentStep now cr;
              crashed = (step \<ge> cr_CrashStep cr);
              resp = \<lparr>cst_roundId = roundID, cst_currentStep = step,
                      cst_multiplier = Some (Multiplier step), cst_crashed = crashed,
                      cst_crashStep = (if crashed then Some (cr_CrashStep cr) else None),
                      cst_crashMultiplier =
                        (if crashed then Some (Multiplier (cr_CrashStep cr)) else None)\<rparr>
          in if crashed then (s, StatusSettle roundID resp)
             else (s, Finished (CrashStatusJSON StatusOK resp)))"
| "thread_step s (StatusSettle roundID resp) =
     (s\<lparr>s_crashStore := CrashStore_Settle (s_crashStore s) roundID\<rparr>,
      Finished (CrashStatusJSON StatusOK resp))"
| "thread_step s (Finished resp) = (s, Finished resp)"

text \<open>A schedule names, step by step, the thread that moves.\<close>

fun run_schedule :: "nat list \<Rightarrow> server \<times> thread list \<Rightarrow> server \<times> thread list" where
  "run_schedule [] c = c"
| "run_schedule (i # sched) (s, ts) =
     (if i < length ts
      then (let (s', t') = thread_step s (ts ! i) in run_schedule sched (s', ts[i := t']))
      else run_schedule sched (s, ts))"

section \<open>Specification-level notions\<close>

text \<open>The sum of the weights of the positive-weight tiers, as a number.\<close>

definition positive_weight_sum :: "PrizeTier list \<Rightarrow> int" where
  "positive_weight_sum ts = (\<Sum>t\<leftarrow>ts. if 0 < sint (pt_Weight t) then sint (pt_Weight t) else 0)"

text \<open>A full match: the three symbols are equal.\<close>

definition all_equal :: "string \<times> string \<times> string \<Rightarrow> bool" where
  "all_equal s = (case s of (a, b, c) \<Rightarrow> a = b \<and> b = c)"

text \<open>A request that leaves the last result on record for the round \<open>r\<close> in its place: it
  is not the end of a Hi/Lo round with this identifier, and where it reads or rewrites the
  results log, the log is read and is not cut off by a failing write.\<close>

fun keeps_record :: "string \<Rightarrow> request \<Rightarrow> bool" where
  "keeps_record r (ReqScratch gameID env req) =
     (sc_read_get env \<and> sc_read_append env \<and> sc_write env \<noteq> WriteTruncErr)"
| "keeps_record r (ReqRoundEnd env req) =
     (hr_RoundID req \<noteq> r \<and> ee_read_append env \<and> ee_write env \<noteq> WriteTruncErr)"
| "keeps_record r (ReqRoundStart env req) = True"
| "keeps_record r (ReqCrash q) = True"

text \<open>What a cashout amounts to, read off the response.\<close>

datatype cashout_result =
    RoundNotFound
  | AlreadySettled
  | ValidationError
  | Loss real real
  | Won real real
  | WalletFailed string

definition cashout_view :: "response \<Rightarrow> cashout_result option" where
  "cashout_view resp =
     (case resp of
        APIError status msg code \<Rightarrow>
          if code = ''ROUND_NOT_FOUND'' then Some RoundNotFound
          else if code = ''ROUND_SETTLED'' then Some AlreadySettled
          else if code = ''INVALID_STEP'' then Some ValidationError
          else if code = ''WIN_FAILED'' then Some (WalletFailed msg)
          else None
      | CrashCashoutJSON status r \<Rightarrow>
          if cc_Crashed r then Some (Loss (cc_WinAmount r) (cc_BalanceDelta r))
          else Some (Won (cc_WinAmount r) (cc_BalanceDelta r))
      | _ \<Rightarrow> None)"

text \<open>The elapsed step as the specification words it: \<open>floor((now - start) / 100ms)\<close>, at
  least 0 (\<open>div\<close> on \<open>int\<close> rounds down; 100 ms are \<open>10^8\<close> ns).\<close>

definition elapsedStep_spec :: "time \<Rightarrow> CrashRound \<Rightarrow> int" where
  "elapsedStep_spec now cr = max 0 ((now - cr_StartedAt cr) div 100000000)"

text \<open>The reference definition of \<open>cashoutCrashRound\<close>, in the words of the specification:
  the result and the ledger after the call.\<close>

definition cashout_spec :: "CrashStore \<Rightarrow> time \<Rightarrow> string \<Rightarrow> int \<Rightarrow> cashout_result \<times> CrashStore" where
  "cashout_spec ledger now roundID claimedStep =
     (case ledger roundID of
        None \<Rightarrow> (RoundNotFound, ledger)
      | Some r \<Rightarrow>
          if cr_Settled r then (AlreadySettled, ledger)
          else if claimedStep > elapsedStep_spec now r then (ValidationError, ledger)
          else if claimedStep \<ge> cr_CrashStep r then
            (Loss 0 (- cr_Amount r), ledger(roundID \<mapsto> r\<lparr>cr_Settled := True\<rparr>))
          else
            let payout = cr_Amount r * (1 + real_of_int claimedStep * (1 / 100))
            in (Won payout (payout - cr_Amount r), ledger(roundID \<mapsto> r\<lparr>cr_Settled := True\<rparr>)))"

text \<open>The same with the two differences of the code, and with the calls to the wallet: a
  negative claimed step counts as step 0; below the crash step the payout is sent to the
  wallet as a win for the token, in the currency of the round, and the round is settled
  only if the wallet accepts it. The result, the ledger after the call, and the wallet
  calls made.\<close>

definition cashout_amended ::
  "CrashStore \<Rightarrow> time \<Rightarrow> win_answer \<Rightarrow> string \<Rightarrow> string \<Rightarrow> int \<Rightarrow>
     cashout_result \<times> CrashStore \<times> wallet_call list" where
  "cashout_amended ledger now wallet token roundID claimedStep =
     (case ledger roundID of
        None \<Rightarrow> (RoundNotFound, ledger, [])
      | Some r \<Rightarrow>
          if cr_Settled r then (AlreadySettled, ledger, [])
          else if claimedStep > elapsedStep_spec now r then (ValidationError, ledger, [])
          else if max 0 claimedStep \<ge> cr_CrashStep r then
            (Loss 0 (- cr_Amount r), ledger(roundID \<mapsto> r\<lparr>cr_Settled := True\<rparr>), [])
          else
            let payout = cr_Amount r * (1 + real_of_int (max 0 claimedStep) * (1 / 100));
                calls = [Win token (cr_Currency r) payout ''Crash'']
            in (case wallet of
                  WinErr msg \<Rightarrow> (WalletFailed msg, ledger, calls)
                | WinOk \<Rightarrow>
                    (Won payout (payout - cr_Amount r),
                     ledger(roundID \<mapsto> r\<lparr>cr_Settled := True\<rparr>), calls)))"

text \<open>The response that carries a result of a cashout for a round of the ledger: the
  errors with their status and code, a loss with the crash step of the round, a win
  without.\<close>

definition cashout_response :: "CrashStore \<Rightarrow> string \<Rightarrow> cashout_result \<Rightarrow> response" where
  "cashout_response ledger roundID res =
     (case res of
        RoundNotFound \<Rightarrow> APIError 404 ''round not found'' ''ROUND_NOT_FOUND''
      | AlreadySettled \<Rightarrow> APIError 409 ''round already settled'' ''ROUND_SETTLED''
      | ValidationError \<Rightarrow> APIError 400 ''cannot cash out in the future'' ''INVALID_STEP''
      | WalletFailed msg \<Rightarrow> APIError 502 msg ''WIN_FAILED''
      | Loss winAmount delta \<Rightarrow>
          CrashCashoutJSON 200
            \<lparr>cc_RoundID = roundID, cc_CashedOut = False, cc_WinAmount = winAmount,
             cc_BalanceDelta = delta, cc_Crashed = True,
             cc_CrashStep = (case ledger roundID of Some r \<Rightarrow> cr_CrashStep r | None \<Rightarrow> 0)\<rparr>
      | Won winAmount delta \<Rightarrow>
          CrashCashoutJSON 200
            \<lparr>cc_RoundID = roundID, cc_CashedOut = True, cc_WinAmount = winAmount,
             cc_BalanceDelta = delta, cc_Crashed = False, cc_CrashStep = 0\<rparr>)"

section \<open>Example inputs\<close>

text \<open>The example model of the specification: \<open>LOSE\<close> with weight 70, \<open>T1\<close> (\<open>\<times>2\<close>) with
  weight 20, \<open>T2\<close> (\<open>\<times>5\<close>) with weight 10.\<close>

definition ex_model :: GameMath where
  "ex_model = \<lparr>gm_ModelID = ''m1'', gm_PrizeTable =
     [\<lparr>pt_Tier = ''LOSE'', pt_Multiplier = 0, pt_Weight = 70\<rparr>,
      \<lparr>pt_Tier = ''T1'', pt_Multiplier = 2, pt_Weight = 20\<rparr>,
      \<lparr>pt_Tier = ''T2'', pt_Multiplier = 5, pt_Weight = 10\<rparr>]\<rparr>"

text \<open>A model whose only tier has weight 1.\<close>

definition ex_model_one :: GameMath where
  "ex_model_one = \<lparr>gm_ModelID = ''one'', gm_PrizeTable =
     [\<lparr>pt_Tier = ''T1'', pt_Multiplier = 2, pt_Weight = 1\<rparr>]\<rparr>"

text \<open>Two tiers of weight \<open>2^62\<close> each: their sum does not fit \<open>int64\<close>.\<close>

definition ex_model_big :: GameMath where
  "ex_model_big = \<lparr>gm_ModelID = ''big'', gm_PrizeTable =
     [\<lparr>pt_Tier = ''A'', pt_Multiplier = 1, pt_Weight = 4611686018427387904\<rparr>,
      \<lparr>pt_Tier = ''B'', pt_Multiplier = 2, pt_Weight = 4611686018427387904\<rparr>]\<rparr>"

text \<open>An open crash round of stake 100 that crashes at step 50, started at time 0, in a
  server without operator client.\<close>

definition ex_round :: CrashRound where
  "ex_round = \<lparr>cr_RoundID = ''r1'', cr_BetID = ''b1'', cr_Currency = ''USD'', cr_Amount = 100,
               cr_CrashStep = 50, cr_StartedAt = 0, cr_Settled = False\<rparr>"

definition ex_server :: server where
  "ex_server = \<lparr>s_operator = False, s_store = Map.empty, s_results = NoDir, s_crashStore = [''r1'' \<mapsto> ex_round],
                s_gameMath = Map.empty, s_calls = []\<rparr>"

text \<open>A cashout request for \<open>r1\<close> at a claimed step, 3 seconds (30 steps) after the start.\<close>

definition ex_cashout :: "int \<Rightarrow> CrashCashoutRequest" where
  "ex_cashout step = \<lparr>cco_Token = ''tok'', cco_RoundID = ''r1'', cco_Step = step\<rparr>"

definition ex_cashout_env :: cashout_env where
  "ex_cashout_env = \<lparr>ce_now = 3000000000, ce_win = WinOk\<rparr>"

text \<open>A start request that reuses the identifier \<open>r1\<close>, with the answers to it: the bet is
  accepted and the random source answers 90 (crash step 100), 7 seconds after time 0.\<close>

definition ex_start_req :: CrashRoundStartRequest where
  "ex_start_req = \<lparr>crs_Token = ''tok'', crs_Currency = [], crs_Amount = 5, crs_RoundID = ''r1''\<rparr>"

definition ex_start_env :: start_env where
  "ex_start_env = \<lparr>se_bet = BetOk ''b2'', se_uuid = ''u1'', se_tape = [Rnd 90], se_now = 7000000000\<rparr>"

text \<open>The same answers, with a wallet that refuses the bet.\<close>

definition ex_start_env_refused :: start_env where
  "ex_start_env_refused = ex_start_env\<lparr>se_bet := BetErr 402 ''insufficient funds''\<rparr>"

text \<open>Later calls that start no round under \<open>r1\<close>: a status query and a cashout for \<open>r1\<close>, and
  the start of a round \<open>r2\<close>.\<close>

definition ex_later :: "crash_request list" where
  "ex_later = [ReqStatus 6500000000 ''r1'' ''tok'',
               ReqCashout \<lparr>ce_now = 6600000000, ce_win = WinOk\<rparr> (ex_cashout 40),
               ReqStart ex_start_env (ex_start_req\<lparr>crs_RoundID := ''r2''\<rparr>)]"

text \<open>A scratch request for round \<open>s1\<close> with stake 10, and the answers to it for a given
  tape: wallet and file system accept everything.\<close>

definition ex_scratch_req :: ScratchRoundStartRequest where
  "ex_scratch_req =
     \<lparr>sq_SessionID = ''sess'', sq_BetAmount = 10, sq_RoundID = ''s1'', sq_GameCode = [],
      sq_DeviceType = [], sq_Currency = [], sq_Token = [], sq_Amount = 0, sq_RoundId = [],
      sq_QuerySessionID = []\<rparr>"

definition ex_scratch_env :: "tape \<Rightarrow> scratch_env" where
  "ex_scratch_env tp =
     \<lparr>sc_uuid_round = ''u0'', sc_uuid_debit = ''u1'', sc_uuid_credit = ''u2'', sc_tape = tp,
      sc_now = 1000, sc_db = DbUnavailable, sc_debit = OpResp 0 [], sc_credit = OpResp 0 [],
      sc_bet = BetOk ''b1'', sc_win = WinOk, sc_mkdir_get = True, sc_read_get = True,
      sc_mkdir_append = True, sc_read_append = True, sc_write = WriteOk\<rparr>"

text \<open>A registered model without usable weight (the one of \<open>TestPickTier_NilOrEmpty\<close>).\<close>

definition ex_model_zero :: GameMath where
  "ex_model_zero = \<lparr>gm_ModelID = ''zero'', gm_PrizeTable =
     [\<lparr>pt_Tier = ''LOSE'', pt_Multiplier = 0, pt_Weight = 0\<rparr>]\<rparr>"

text \<open>The result, the response and the state of the first example call on the tape
  \<open>[Rnd 0, Rnd 1, Rnd 2]\<close> (cherry, lemon, star: a loss).\<close>

definition ex_scratch_result :: Result where
  "ex_scratch_result =
     \<lparr>res_RoundID = ''s1'', res_BetID = [], res_Outcome = ''lose'', res_NextNumber = 0,
      res_BalanceDelta = - 10, res_SettledAt = 1000,
      res_Symbols = [''cherry'', ''lemon'', ''star''], res_WinAmount = 0\<rparr>"

definition ex_scratch_response :: ScratchRoundStartResponse where
  "ex_scratch_response =
     \<lparr>sr_RoundID = ''s1'', sr_Symbols = (''cherry'', ''lemon'', ''star''), sr_WinAmount = 0,
      sr_BalanceDelta = - 10, sr_Tier = [], sr_Error = []\<rparr>"

definition ex_server_after :: server where
  "ex_server_after = ex_server\<lparr>s_results := Dir (Listed [ex_scratch_result]),
                               s_calls := [Bet ''sess'' ''USD'' 10 ''Scratch'']\<rparr>"

text \<open>A Hi/Lo round under an identifier, stake 5: the start draws the number 5, the end
  with the choice \<open>higher\<close> draws 8, a win; the file system accepts everything. Its result,
  and the state after such a round under the identifier \<open>s1\<close> of the scratch round.\<close>

definition ex_hilo_start :: "string \<Rightarrow> request" where
  "ex_hilo_start r =
     ReqRoundStart \<lparr>se_bet = BetOk ''b2'', se_uuid = ''u3'', se_tape = [Rnd 4], se_now = 2000\<rparr>
       \<lparr>hq_Token = ''tok'', hq_Currency = [], hq_Amount = 5, hq_RoundID = r\<rparr>"

definition ex_hilo_end :: "string \<Rightarrow> request" where
  "ex_hilo_end r =
     ReqRoundEnd \<lparr>ee_tape = [Rnd 7], ee_now = 3000, ee_win = WinOk, ee_rollback = RollbackOk,
                  ee_mkdir_append = True, ee_read_append = True, ee_write = WriteOk\<rparr>
       \<lparr>hr_Token = ''tok'', hr_RoundID = r, hr_Choice = ''higher''\<rparr>"

definition ex_hilo_result :: "string \<Rightarrow> Result" where
  "ex_hilo_result r =
     \<lparr>res_RoundID = r, res_BetID = ''b2'', res_Outcome = ''win'', res_NextNumber = 8,
      res_BalanceDelta = 5, res_SettledAt = 3000, res_Symbols = [], res_WinAmount = 0\<rparr>"

definition ex_server_hilo :: "string \<Rightarrow> server" where
  "ex_server_hilo r =
     ex_server\<lparr>s_results := Dir (Listed [ex_scratch_result, ex_hilo_result r]),
               s_calls := [Bet ''sess'' ''USD'' 10 ''Scratch'', Bet ''tok'' ''USD'' 5 [],
                           Win ''tok'' ''USD'' 5 []]\<rparr>"

text \<open>The same answers, except that \<open>os.WriteFile\<close> cannot open the log.\<close>

definition ex_scratch_env_nowrite :: "tape \<Rightarrow> scratch_env" where
  "ex_scratch_env_nowrite tp = (ex_scratch_env tp)\<lparr>sc_write := WriteOpenErr\<rparr>"

definition ex_scratch_params :: scratch_params where
  "ex_scratch_params = \<lparr>sp_sessionID = ''sess'', sp_currency = ''USD'', sp_betAmount = 10,
      sp_roundID = ''s1'', sp_deviceType = ''desktop'', sp_gameCode = ''scratch''\<rparr>"

definition ex_scratch_outcome :: Outcome where
  "ex_scratch_outcome = \<lparr>out_Symbols = (''cherry'', ''lemon'', ''star''), out_WinAmount = 0,
      out_Match = False, out_Tier = []\<rparr>"

text \<open>The example server with the model without usable weight registered for the game
  \<open>scratch\<close>, and the response to a full match of the legacy generator.\<close>

definition ex_server_zero :: server where
  "ex_server_zero = ex_server\<lparr>s_gameMath := [''scratch'' \<mapsto> ex_model_zero]\<rparr>"

definition ex_win_response :: ScratchRoundStartResponse where
  "ex_win_response =
     \<lparr>sr_RoundID = ''s1'', sr_Symbols = (''cherry'', ''cherry'', ''cherry''), sr_WinAmount = 20,
      sr_BalanceDelta = 10, sr_Tier = [], sr_Error = []\<rparr>"

section \<open>Properties of the outcome engine\<close>

lemma sum_weights_eq:
  "sum_weights ts acc = acc + word_of_int (positive_weight_sum ts)"
  by (induction ts arbitrary: acc) (auto simp: positive_weight_sum_def word_sle_eq)

lemma positive_weight_sum_nonneg: "0 \<le> positive_weight_sum ts"
  by (induction ts) (auto simp: positive_weight_sum_def)

text \<open>Without overflow the accumulated \<open>total\<close> is the sum itself.\<close>

lemma sum_weights_exact:
  assumes "positive_weight_sum ts < 2 ^ 63"
  shows "sint (sum_weights ts 0) = positive_weight_sum ts"
proof -
  have "sint (word_of_int (positive_weight_sum ts) :: int64) = positive_weight_sum ts"
    using assms positive_weight_sum_nonneg [of ts]
    by (simp add: sint_sbintrunc' signed_take_bit_int_eq_self)
  then show ?thesis by (simp add: sum_weights_eq)
qed

lemma walk_tiers_Some:
  "walk_tiers ts idx cum = Some t \<Longrightarrow> t \<in> set ts \<and> 0 <s pt_Weight t"
  by (induction ts arbitrary: cum) (auto simp: word_sle_eq word_sless_alt split: if_splits)

text \<open>The second loop falls through only when \<open>idx\<close> is not below the total: the cumulative
  weight after the last positive tier is the total of the first loop, wrapped alike.\<close>

lemma walk_tiers_None:
  "walk_tiers ts idx cum = None \<Longrightarrow> idx <s sum_weights ts cum \<Longrightarrow> idx <s cum"
  by (induction ts arbitrary: cum) (auto split: if_splits)

lemma sint_idx:
  assumes "v < nat (sint (w::int64))"
  shows "sint (word_of_nat v :: int64) = int v"
proof -
  have "sint w < 2 ^ 63" using sint_lt [of w] by simp
  with assms have "int v < 2 ^ 63" by linarith
  moreover have "(word_of_nat v :: int64) = word_of_int (int v)" by simp
  ultimately show ?thesis
    by (simp only: sint_sbintrunc') (simp add: signed_take_bit_int_eq_self)
qed

lemma walk_tiers_total:
  assumes "0 <s tot" and "tot = sum_weights ts 0" and "v < nat (sint tot)"
  shows "\<exists>t. walk_tiers ts (word_of_nat v) 0 = Some t"
proof (cases "walk_tiers ts (word_of_nat v) 0")
  case None
  have i: "sint (word_of_nat v :: int64) = int v" using assms(3) by (rule sint_idx)
  moreover have "int v < sint tot" using assms(3) by linarith
  ultimately have "(word_of_nat v :: int64) <s sum_weights ts 0"
    using assms(2) by (simp add: word_sless_alt)
  with None have "(word_of_nat v :: int64) <s 0" by (rule walk_tiers_None)
  with i show ?thesis by (simp add: word_sless_alt)
qed simp

text \<open>\<open>PickTier\<close> with one answer of the random source at hand, in terms of the total the
  code computes (wrap-around included). With total 1 the source is not read.\<close>

lemma PickTier_cases:
  "\<exists>t ok tp'. PickTier (Some m) (d # tp) = Some ((t, ok), tp') \<and>
     (\<not> ok \<longleftrightarrow> gm_PrizeTable m = [] \<or> sum_weights (gm_PrizeTable m) 0 \<le>s 0 \<or>
               (d = RndErr \<and> sint (sum_weights (gm_PrizeTable m) 0) \<noteq> 1)) \<and>
     (ok \<longrightarrow> t \<in> set (gm_PrizeTable m) \<and> 0 <s pt_Weight t)"
proof (cases "gm_PrizeTable m = [] \<or> sum_weights (gm_PrizeTable m) 0 \<le>s 0")
  case True
  then show ?thesis by (auto simp: PickTier_def)
next
  case False
  let ?tot = "sum_weights (gm_PrizeTable m) 0"
  from False have pos: "0 <s ?tot"
    by (auto simp: word_sle_eq word_sless_alt)
  then have n: "0 < nat (sint ?tot)" by (simp add: word_sless_alt)
  show ?thesis
  proof (cases "sint ?tot = 1")
    case True
    then have r: "rand_Int (nat (sint ?tot)) (d # tp) = Some (Some 0, d # tp)"
      by (simp add: rand_Int_def)
    from pos True obtain t where w: "walk_tiers (gm_PrizeTable m) (word_of_nat 0) 0 = Some t"
      using walk_tiers_total [of ?tot "gm_PrizeTable m" 0] by auto
    from w have "t \<in> set (gm_PrizeTable m) \<and> 0 <s pt_Weight t" by (rule walk_tiers_Some)
    with False True r w show ?thesis by (auto simp: PickTier_def Let_def)
  next
    case one: False
    then have n1: "nat (sint ?tot) \<noteq> 1" by simp
    show ?thesis
    proof (cases d)
      case RndErr
      with False n1 one show ?thesis by (auto simp: PickTier_def rand_Int_def)
    next
      case (Rnd r)
      let ?v = "r mod nat (sint ?tot)"
      have "?v < nat (sint ?tot)" using n by simp
      with pos obtain t where w: "walk_tiers (gm_PrizeTable m) (word_of_nat ?v) 0 = Some t"
        using walk_tiers_total [of ?tot "gm_PrizeTable m" ?v] by blast
      from w have "t \<in> set (gm_PrizeTable m) \<and> 0 <s pt_Weight t" by (rule walk_tiers_Some)
      with False Rnd w n1 show ?thesis by (auto simp: PickTier_def Let_def rand_Int_def)
    qed
  qed
qed

text \<open>
  Claim C8, amended. A nil model gives \<open>ok = false\<close>. For a model and an answer \<open>d\<close> of the
  random source, \<open>PickTier\<close> returns; if the positive weights sum to less than \<open>2^63\<close>,
  then \<open>ok = false\<close> exactly when the prize table is empty, the sum of the positive weights
  is \<open>\<le> 0\<close>, or the random source, which is read unless that sum is 1, reports an error;
  and for every model, when \<open>ok = true\<close> the returned tier is an entry of the prize table
  with weight \<open>> 0\<close>.
\<close>

theorem PickTier_ok_iff:
  "PickTier None tp = Some ((zero_PrizeTier, False), tp) \<and>
   (\<exists>t ok tp'. PickTier (Some m) (d # tp) = Some ((t, ok), tp') \<and>
      (positive_weight_sum (gm_PrizeTable m) < 2 ^ 63 \<longrightarrow>
         (\<not> ok \<longleftrightarrow> gm_PrizeTable m = [] \<or> positive_weight_sum (gm_PrizeTable m) \<le> 0
                   \<or> (d = RndErr \<and> positive_weight_sum (gm_PrizeTable m) \<noteq> 1))) \<and>
      (ok \<longrightarrow> t \<in> set (gm_PrizeTable m) \<and> 0 <s pt_Weight t))"
proof -
  obtain t ok tp' where p: "PickTier (Some m) (d # tp) = Some ((t, ok), tp')"
    and i: "\<not> ok \<longleftrightarrow> gm_PrizeTable m = [] \<or> sum_weights (gm_PrizeTable m) 0 \<le>s 0 \<or>
                      (d = RndErr \<and> sint (sum_weights (gm_PrizeTable m) 0) \<noteq> 1)"
    and k: "ok \<longrightarrow> t \<in> set (gm_PrizeTable m) \<and> 0 <s pt_Weight t"
    using PickTier_cases [of m d tp] by blast
  have "positive_weight_sum (gm_PrizeTable m) < 2 ^ 63 \<Longrightarrow>
      (sum_weights (gm_PrizeTable m) 0 \<le>s 0 \<longleftrightarrow> positive_weight_sum (gm_PrizeTable m) \<le> 0) \<and>
      sint (sum_weights (gm_PrizeTable m) 0) = positive_weight_sum (gm_PrizeTable m)"
    by (simp add: word_sle_eq sum_weights_exact)
  with p i k show ?thesis by (auto simp: PickTier_def)
qed

text \<open>The theorem at the example model with the answer 75: the sum is 100, the draw lands
  in \<open>T1\<close>, an entry of positive weight. And at the model of total weight 1 with a failing
  random source: the source is not read and the only tier is returned.\<close>

theorem PickTier_ok_iff_witness:
  "positive_weight_sum (gm_PrizeTable ex_model) < 2 ^ 63 \<and>
   PickTier (Some ex_model) [Rnd 75] =
     Some ((\<lparr>pt_Tier = ''T1'', pt_Multiplier = 2, pt_Weight = 20\<rparr>, True), []) \<and>
   \<lparr>pt_Tier = ''T1'', pt_Multiplier = 2, pt_Weight = 20\<rparr> \<in> set (gm_PrizeTable ex_model) \<and>
   0 <s pt_Weight \<lparr>pt_Tier = ''T1'', pt_Multiplier = 2, pt_Weight = 20\<rparr> \<and>
   positive_weight_sum (gm_PrizeTable ex_model_one) = 1 \<and>
   PickTier (Some ex_model_one) [RndErr] =
     Some ((\<lparr>pt_Tier = ''T1'', pt_Multiplier = 2, pt_Weight = 1\<rparr>, True), [RndErr])"
  using PickTier_ok_iff [where m = ex_model and d = "Rnd 75" and tp = "[]"]
    PickTier_ok_iff [where m = ex_model_one and d = RndErr and tp = "[]"]
  by (simp add: ex_model_def ex_model_one_def positive_weight_sum_def PickTier_def rand_Int_def
                word_sle_eq word_sless_alt)

text \<open>
  Claim C8 as stated fails. With the example model (not nil, table not empty, positive
  weights summing to 100) and a failing random source, \<open>ok = false\<close>; and with two tiers
  of weight \<open>2^62\<close> (positive weights summing to \<open>2^63\<close>) the total wraps to \<open>-2^63\<close> and
  \<open>ok = false\<close> whatever the random source answers.
\<close>

theorem PickTier_ok_iff_counterexample:
  "gm_PrizeTable ex_model \<noteq> [] \<and> positive_weight_sum (gm_PrizeTable ex_model) = 100 \<and>
   PickTier (Some ex_model) [RndErr] = Some ((zero_PrizeTier, False), []) \<and>
   gm_PrizeTable ex_model_big \<noteq> [] \<and>
   positive_weight_sum (gm_PrizeTable ex_model_big) = 9223372036854775808 \<and>
   PickTier (Some ex_model_big) [Rnd 0] = Some ((zero_PrizeTier, False), [Rnd 0])"
  by (simp add: ex_model_def ex_model_big_def positive_weight_sum_def PickTier_def rand_Int_def
                word_sle_eq word_sless_alt)

lemma redraw_not_equal:
  "redraw a b c tp = Some (c', tp') \<Longrightarrow> \<not> (a = b \<and> b = c')"
  by (induction a b c tp rule: redraw.induct)
     (subst (asm) redraw.simps, auto split: if_splits option.splits)

text \<open>The loop returns at once when the symbols are not all equal.\<close>

lemma redraw_done: "\<not> (a = b \<and> b = c) \<Longrightarrow> redraw a b c tp = Some (c, tp)"
  by (subst redraw.simps) auto

lemma draw_symbol_Cons: "\<exists>s. draw_symbol (d # tp) = Some (s, tp) \<and> s \<in> set symbols"
proof (cases d)
  case RndErr
  then show ?thesis by (simp add: draw_symbol_def secureIntn_def symbols_def rand_Int_def)
next
  case (Rnd r)
  have "r mod 4 < 4" by simp
  then have "r mod 4 = 0 \<or> r mod 4 = 1 \<or> r mod 4 = 2 \<or> r mod 4 = 3" by linarith
  with Rnd show ?thesis
    by (auto simp: draw_symbol_def secureIntn_def symbols_def rand_Int_def)
qed

text \<open>The redraw loop returns as soon as the tape holds an answer that draws another symbol.\<close>

lemma redraw_returns:
  assumes "\<exists>d\<in>set tp. \<forall>t. fst (the (draw_symbol (d # t))) \<noteq> a"
  shows "redraw a a a tp \<noteq> None"
  using assms
proof (induction tp)
  case Nil
  then show ?case by simp
next
  case (Cons d tp)
  obtain s where s: "draw_symbol (d # tp) = Some (s, tp)"
    using draw_symbol_Cons [of d tp] by blast
  show ?case
  proof (cases "s = a")
    case True
    have "\<not> (\<forall>t. fst (the (draw_symbol (d # t))) \<noteq> a)"
      using s True by (auto intro: exI [of _ tp])
    with Cons.prems have "\<exists>d\<in>set tp. \<forall>t. fst (the (draw_symbol (d # t))) \<noteq> a" by auto
    with Cons.IH have "redraw a a a tp \<noteq> None" by blast
    with s True show ?thesis by (subst redraw.simps) simp
  next
    case False
    with s show ?thesis by (subst redraw.simps) (simp add: redraw_done)
  qed
qed

lemma render_lose_not_equal:
  assumes "render_lose tp = Some (s, tp')"
  shows "\<not> all_equal s"
proof -
  from assms obtain a b c c' tp3 where
    r: "redraw a b c tp3 = Some (c', tp')" and s: "s = (a, b, c')"
    by (auto simp: render_lose_def split: Option.bind_splits)
  from r have "\<not> (a = b \<and> b = c')" by (rule redraw_not_equal)
  with s show ?thesis by (simp add: all_equal_def)
qed

lemma render_win_equal: "render_win tp = Some (s, tp') \<Longrightarrow> all_equal s"
  by (auto simp: render_win_def all_equal_def split: Option.bind_splits)

text \<open>
  Claim C9. Whenever \<open>GenerateWithMath\<close> returns with \<open>ok = true\<close>, the outcome belongs to
  the tier \<open>PickTier\<close> drew: if that tier has a positive multiplier and is not \<open>LOSE\<close>, the
  three symbols are equal; if it is \<open>LOSE\<close> or has multiplier 0, they are not all equal.
\<close>

theorem GenerateWithMath_rendering:
  assumes "GenerateWithMath betAmount math tp = Some ((out, True), tp')"
  shows "\<exists>tier tp0. PickTier math tp = Some ((tier, True), tp0) \<and>
           out_Tier out = pt_Tier tier \<and>
           (0 < pt_Multiplier tier \<and> pt_Tier tier \<noteq> ''LOSE'' \<longrightarrow> all_equal (out_Symbols out)) \<and>
           (pt_Tier tier = ''LOSE'' \<or> pt_Multiplier tier = 0 \<longrightarrow> \<not> all_equal (out_Symbols out))"
proof -
  from assms obtain m where m: "math = Some m"
    by (cases math) (auto simp: GenerateWithMath_def)
  from assms m obtain tier tp0 s where
    p: "PickTier math tp = Some ((tier, True), tp0)" and
    r: "(if pt_Tier tier = ''LOSE'' \<or> pt_Multiplier tier = 0
         then render_lose tp0 else render_win tp0) = Some (s, tp')" and
    o: "out = \<lparr>out_Symbols = s, out_WinAmount = betAmount * pt_Multiplier tier,
               out_Match = (0 < betAmount * pt_Multiplier tier), out_Tier = pt_Tier tier\<rparr>"
    by (auto simp: GenerateWithMath_def Let_def split: Option.bind_splits if_splits)
  have "pt_Tier tier = ''LOSE'' \<or> pt_Multiplier tier = 0 \<Longrightarrow> \<not> all_equal s"
    using r by (auto dest: render_lose_not_equal)
  moreover have "0 < pt_Multiplier tier \<and> pt_Tier tier \<noteq> ''LOSE'' \<Longrightarrow> all_equal s"
    using r by (auto dest: render_win_equal)
  ultimately show ?thesis using p o by auto
qed

lemmas eval_scratch =
  GenerateWithMath_def PickTier_def Let_def render_lose_def render_win_def draw_symbol_def
  secureIntn_def rand_Int_def symbols_def redraw.simps word_sle_eq word_sless_alt all_equal_def
  SymbolCherry_def SymbolLemon_def SymbolStar_def SymbolSeven_def

text \<open>The theorem on a losing draw whose first three symbols match (the third is drawn
  again), and on a winning draw.\<close>

theorem GenerateWithMath_rendering_witness:
  "GenerateWithMath 10 (Some ex_model) [Rnd 5, Rnd 2, Rnd 2, Rnd 2, Rnd 6, Rnd 3] =
     Some ((\<lparr>out_Symbols = (''star'', ''star'', ''seven''), out_WinAmount = 0,
             out_Match = False, out_Tier = ''LOSE''\<rparr>, True), []) \<and>
   \<not> all_equal (''star'', ''star'', ''seven'') \<and>
   GenerateWithMath 10 (Some ex_model) [Rnd 75, Rnd 2] =
     Some ((\<lparr>out_Symbols = (''star'', ''star'', ''star''), out_WinAmount = 20,
             out_Match = True, out_Tier = ''T1''\<rparr>, True), []) \<and>
   all_equal (''star'', ''star'', ''star'')"
proof -
  have a: "GenerateWithMath 10 (Some ex_model) [Rnd 5, Rnd 2, Rnd 2, Rnd 2, Rnd 6, Rnd 3] =
     Some ((\<lparr>out_Symbols = (''star'', ''star'', ''seven''), out_WinAmount = 0,
             out_Match = False, out_Tier = ''LOSE''\<rparr>, True), [])"
    by (simp add: eval_scratch ex_model_def)
  have b: "GenerateWithMath 10 (Some ex_model) [Rnd 75, Rnd 2] =
     Some ((\<lparr>out_Symbols = (''star'', ''star'', ''star''), out_WinAmount = 20,
             out_Match = True, out_Tier = ''T1''\<rparr>, True), [])"
    by (simp add: eval_scratch ex_model_def)
  from GenerateWithMath_rendering [OF a] GenerateWithMath_rendering [OF b] a b
  show ?thesis by (simp add: eval_scratch ex_model_def)
qed

section \<open>Properties of the crash handlers\<close>

subsection \<open>Cashout\<close>

lemma sdiv_nonneg: "0 \<le> d \<Longrightarrow> 0 < k \<Longrightarrow> (d::int) sdiv k = d div k"
  by (simp add: signed_divide_int_def sgn_if)

lemma sdiv_neg: "d < 0 \<Longrightarrow> 0 < k \<Longrightarrow> (d::int) sdiv k \<le> 0"
  by (simp add: signed_divide_int_def sgn_if div_int_pos_iff)

lemma sdiv_nonpos: "d \<le> 0 \<Longrightarrow> 0 < k \<Longrightarrow> (d::int) sdiv k \<le> 0"
  using sdiv_neg [of d k] by (cases "d = 0") (simp_all add: signed_divide_int_def)

text \<open>Truncating twice and raising to 0 is rounding down and raising to 0.\<close>

lemma currentStep_eq: "currentStep now cr = elapsedStep_spec now cr"
proof (cases "0 \<le> now - cr_StartedAt cr")
  case True
  let ?d = "now - cr_StartedAt cr"
  have a: "?d sdiv 1000000 = ?d div 1000000" using True by (simp add: sdiv_nonneg)
  have "0 \<le> ?d div 1000000" using True by (simp add: pos_imp_zdiv_nonneg_iff)
  then have b: "(?d div 1000000) sdiv 100 = (?d div 1000000) div 100" by (simp add: sdiv_nonneg)
  have c: "(?d div 1000000) div 100 = ?d div 100000000"
    by (simp add: div_mult2_eq [symmetric])
  have "0 \<le> ?d div 100000000" using True by (simp add: pos_imp_zdiv_nonneg_iff)
  then show ?thesis
    by (simp add: currentStep_def elapsedStep_spec_def Since_def Milliseconds_def a b c Let_def)
next
  case False
  let ?d = "now - cr_StartedAt cr"
  from False have n: "?d < 0" by simp
  then have "?d sdiv 1000000 \<le> 0" by (simp add: sdiv_neg)
  then have "(?d sdiv 1000000) sdiv 100 \<le> 0" by (simp add: sdiv_nonpos)
  moreover have "?d div 100000000 < 0" using n by (simp add: div_neg_pos_less0)
  ultimately show ?thesis
    by (simp add: currentStep_def elapsedStep_spec_def Since_def Milliseconds_def Let_def)
qed

lemma Multiplier_eq: "Multiplier step = 1 + real_of_int (max 0 step) * (1 / 100)"
  by (simp add: Multiplier_def StepSize_def max_def Let_def)

lemmas cashout_unfold =
  handleCrashCashout_def cashout_amended_def cashout_response_def CrashStore_Get_def
  CrashStore_Settle_def currentStep_eq Multiplier_eq Let_def
  StatusNotFound_def StatusConflict_def StatusBadRequest_def StatusOK_def StatusBadGateway_def

text \<open>The response of a result shows that result.\<close>

lemma cashout_view_response:
  "cashout_view (cashout_response ledger roundID res) = Some res"
  by (cases res) (simp_all add: cashout_response_def cashout_view_def)

text \<open>
  Claim C5, amended. For a request with token and round identifier, \<open>handleCrashCashout\<close>
  is the reference definition with two changes (\<open>cashout_amended\<close>): the response is the
  one that carries its result, the ledger after the call is its ledger, and the wallet
  calls made are its wallet calls, nothing else of the state changing. That is: an unknown
  round is a round-not-found error; a settled round an already-settled error; a claimed
  step above the elapsed step \<open>floor((now - start) / 100ms)\<close>, at least 0, a validation
  error; these three leave the state as it is. Otherwise, with the claimed step raised to
  0 when negative: at or above the crash step the round is settled as a loss with win
  amount 0 and balance delta \<open>- stake\<close>, without wallet call; below it the payout
  \<open>stake * (1 + step * 0.01)\<close> is sent to the wallet once, as a win for the token of the
  request in the currency of the round, and the round is settled as a win with balance
  delta \<open>payout - stake\<close> if the wallet accepts it, and left open with a bad-gateway error
  if not.
\<close>

theorem cashout_refines_amended:
  assumes "cco_Token req \<noteq> []" and "cco_RoundID req \<noteq> []"
  shows "handleCrashCashout s env req =
           (let (res, ledger, calls) =
                  cashout_amended (s_crashStore s) (ce_now env) (ce_win env) (cco_Token req)
                    (cco_RoundID req) (cco_Step req)
            in (cashout_response (s_crashStore s) (cco_RoundID req) res,
                s\<lparr>s_crashStore := ledger, s_calls := s_calls s @ calls\<rparr>))"
proof (cases "s_crashStore s (cco_RoundID req)")
  case None
  with assms show ?thesis by (simp add: cashout_unfold)
next
  case (Some r)
  show ?thesis
  proof (cases "cr_Settled r \<or> cco_Step req > elapsedStep_spec (ce_now env) r")
    case True
    with assms Some show ?thesis by (auto simp: cashout_unfold)
  next
    case open_ok: False
    show ?thesis
    proof (cases "max 0 (cco_Step req) \<ge> cr_CrashStep r")
      case True
      with assms Some open_ok show ?thesis by (auto simp: cashout_unfold max_def)
    next
      case False
      with assms Some open_ok show ?thesis
        by (cases "ce_win env") (auto simp: cashout_unfold max_def)
    qed
  qed
qed

text \<open>The theorem on the example round, 30 steps after its start: cashed out at step 30 of 50,
  a win of 130 sent to the wallet once; at a claimed step of 60, a validation error that
  changes nothing.\<close>

theorem cashout_refines_amended_witness:
  "cco_Token (ex_cashout 30) \<noteq> [] \<and> cco_RoundID (ex_cashout 30) \<noteq> [] \<and>
   cashout_amended (s_crashStore ex_server) 3000000000 WinOk ''tok'' ''r1'' 30 =
     (Won 130 30, [''r1'' \<mapsto> ex_round\<lparr>cr_Settled := True\<rparr>], [Win ''tok'' ''USD'' 130 ''Crash'']) \<and>
   handleCrashCashout ex_server ex_cashout_env (ex_cashout 30) =
     (CrashCashoutJSON 200
        \<lparr>cc_RoundID = ''r1'', cc_CashedOut = True, cc_WinAmount = 130, cc_BalanceDelta = 30,
         cc_Crashed = False, cc_CrashStep = 0\<rparr>,
      ex_server\<lparr>s_crashStore := [''r1'' \<mapsto> ex_round\<lparr>cr_Settled := True\<rparr>],
                s_calls := [Win ''tok'' ''USD'' 130 ''Crash'']\<rparr>) \<and>
   handleCrashCashout ex_server ex_cashout_env (ex_cashout 60) =
     (APIError 400 ''cannot cash out in the future'' ''INVALID_STEP'', ex_server)"
proof -
  have a: "cashout_amended (s_crashStore ex_server) 3000000000 WinOk ''tok'' ''r1'' 30 =
     (Won 130 30, [''r1'' \<mapsto> ex_round\<lparr>cr_Settled := True\<rparr>], [Win ''tok'' ''USD'' 130 ''Crash''])"
    by (simp add: ex_server_def ex_round_def cashout_amended_def elapsedStep_spec_def)
  have b: "cashout_amended (s_crashStore ex_server) 3000000000 WinOk ''tok'' ''r1'' 60 =
     (ValidationError, s_crashStore ex_server, [])"
    by (simp add: ex_server_def ex_round_def cashout_amended_def elapsedStep_spec_def)
  show ?thesis
    using cashout_refines_amended [of "ex_cashout 30" ex_server ex_cashout_env]
          cashout_refines_amended [of "ex_cashout 60" ex_server ex_cashout_env] a b
    by (simp add: ex_cashout_def ex_cashout_env_def cashout_response_def)
       (simp add: ex_server_def)
qed

text \<open>
  Claim C5 as stated fails. On the example round, 30 steps after the start, a claimed
  step of \<open>-5\<close> is paid as step 0 (payout 100, balance delta 0), where the reference
  definition gives \<open>100 * (1 + (-5) * 0.01) = 95\<close> and balance delta \<open>-5\<close>.
\<close>

theorem cashout_spec_counterexample:
  "cashout_view (fst (handleCrashCashout ex_server ex_cashout_env (ex_cashout (- 5))))
     = Some (Won 100 0) \<and>
   fst (cashout_spec (s_crashStore ex_server) 3000000000 ''r1'' (- 5)) = Won 95 (- 5) \<and>
   cashout_view (fst (handleCrashCashout ex_server ex_cashout_env (ex_cashout (- 5))))
     \<noteq> Some (fst (cashout_spec (s_crashStore ex_server) (ce_now ex_cashout_env)
                    (cco_RoundID (ex_cashout (- 5))) (cco_Step (ex_cashout (- 5)))))"
  by (simp add: ex_cashout_def ex_server_def ex_cashout_env_def ex_round_def cashout_spec_def
        elapsedStep_spec_def cashout_view_def handleCrashCashout_def CrashStore_Get_def
        CrashStore_Settle_def currentStep_eq Multiplier_eq Let_def)

subsection \<open>Round start\<close>

lemma GenerateCrashStep_total:
  "\<exists>c. GenerateCrashStep (d # tp) = Some (c, tp) \<and> CrashStepMin \<le> c \<and> c \<le> CrashStepMax"
proof (cases d)
  case RndErr
  then show ?thesis by (simp add: GenerateCrashStep_def rand_Int_def CrashStepMin_def CrashStepMax_def)
next
  case (Rnd r)
  have "r mod 391 < 391" by simp
  then have "int (r mod 391) \<le> 390" by linarith
  with Rnd show ?thesis
    by (simp add: GenerateCrashStep_def rand_Int_def CrashStepMin_def CrashStepMax_def Let_def)
qed

text \<open>
  Claim C6, amended. When the round identifier of a start request (with token and positive
  amount) already exists in the crash-round store: if the wallet accepts the bet, the
  request succeeds and the existing round is replaced by a new open round with the stake
  of the request, a newly drawn crash step in \<open>[10, 400]\<close>, the bet identifier of this bet
  and the time of the call as start; if the wallet refuses the bet, the store is unchanged.
\<close>

theorem start_replaces_existing_round:
  assumes "crs_Token req \<noteq> []" and "0 < crs_Amount req" and "crs_RoundID req \<noteq> []"
    and "s_crashStore s (crs_RoundID req) = Some old"
    and "se_tape env = d # tp"
  shows "(\<forall>betID. se_bet env = BetOk betID \<longrightarrow>
           (\<exists>c. CrashStepMin \<le> c \<and> c \<le> CrashStepMax \<and>
              handleCrashRoundStart s env req =
                Some (CrashStartJSON StatusOK
                        \<lparr>cs_RoundID = crs_RoundID req, cs_StartedAtMs = se_now env div 1000000\<rparr>,
                      s\<lparr>s_calls := s_calls s @
                           [Bet (crs_Token req)
                              (if crs_Currency req = [] then ''USD'' else crs_Currency req)
                              (crs_Amount req) ''Crash''],
                         s_crashStore := (s_crashStore s)(crs_RoundID req \<mapsto>
                           \<lparr>cr_RoundID = crs_RoundID req, cr_BetID = betID,
                            cr_Currency = (if crs_Currency req = [] then ''USD'' else crs_Currency req),
                            cr_Amount = crs_Amount req, cr_CrashStep = c,
                            cr_StartedAt = se_now env, cr_Settled = False\<rparr>)\<rparr>))) \<and>
         (\<forall>status msg. se_bet env = BetErr status msg \<longrightarrow>
           (\<exists>resp s'. handleCrashRoundStart s env req = Some (resp, s') \<and>
              s_crashStore s' = s_crashStore s))"
proof -
  obtain c where c: "GenerateCrashStep (d # tp) = Some (c, tp)"
    and r: "CrashStepMin \<le> c" "c \<le> CrashStepMax"
    using GenerateCrashStep_total [of d tp] by blast
  show ?thesis
    using assms c r
    by (auto simp: handleCrashRoundStart_def CrashStore_Create_def Let_def)
qed

text \<open>The theorem on the example round and a start request that reuses \<open>r1\<close>, with a bet
  that is accepted and with one that is refused.\<close>

theorem start_replaces_existing_round_witness:
  "crs_Token ex_start_req \<noteq> [] \<and> 0 < crs_Amount ex_start_req \<and> crs_RoundID ex_start_req \<noteq> [] \<and>
   s_crashStore ex_server (crs_RoundID ex_start_req) = Some ex_round \<and>
   se_tape ex_start_env = [Rnd 90] \<and> se_bet ex_start_env = BetOk ''b2'' \<and>
   (\<exists>c. CrashStepMin \<le> c \<and> c \<le> CrashStepMax \<and>
      map_option fst (handleCrashRoundStart ex_server ex_start_env ex_start_req) =
        Some (CrashStartJSON StatusOK \<lparr>cs_RoundID = ''r1'', cs_StartedAtMs = 7000\<rparr>)) \<and>
   se_bet ex_start_env_refused = BetErr 402 ''insufficient funds'' \<and>
   (\<exists>resp s'. handleCrashRoundStart ex_server ex_start_env_refused ex_start_req = Some (resp, s') \<and>
      s_crashStore s' = s_crashStore ex_server)"
  using start_replaces_existing_round [of ex_start_req ex_server ex_round ex_start_env "Rnd 90" "[]"]
        start_replaces_existing_round [of ex_start_req ex_server ex_round ex_start_env_refused "Rnd 90" "[]"]
  by (auto simp: ex_start_req_def ex_start_env_def ex_server_def ex_start_env_refused_def)

text \<open>
  Claim C6 as stated fails. The example store holds \<open>r1\<close> (stake 100, crash step 50, started
  at 0); a start request for \<open>r1\<close> with stake 5 succeeds, and \<open>r1\<close> is then a new round with
  stake 5, crash step 100 and start time 7 s.
\<close>

theorem start_existing_round_counterexample:
  "s_crashStore ex_server ''r1'' = Some ex_round \<and>
   map_option fst (handleCrashRoundStart ex_server ex_start_env ex_start_req) =
     Some (CrashStartJSON StatusOK \<lparr>cs_RoundID = ''r1'', cs_StartedAtMs = 7000\<rparr>) \<and>
   map_option (\<lambda>(resp, s'). s_crashStore s' ''r1'')
       (handleCrashRoundStart ex_server ex_start_env ex_start_req) =
     Some (Some \<lparr>cr_RoundID = ''r1'', cr_BetID = ''b2'', cr_Currency = ''USD'', cr_Amount = 5,
                 cr_CrashStep = 100, cr_StartedAt = 7000000000, cr_Settled = False\<rparr>) \<and>
   ex_round = \<lparr>cr_RoundID = ''r1'', cr_BetID = ''b1'', cr_Currency = ''USD'', cr_Amount = 100,
               cr_CrashStep = 50, cr_StartedAt = 0, cr_Settled = False\<rparr>"
  by (simp add: ex_start_req_def ex_start_env_def ex_server_def ex_round_def
        handleCrashRoundStart_def CrashStore_Create_def GenerateCrashStep_def rand_Int_def
        CrashStepMin_def CrashStepMax_def Let_def StatusOK_def)

subsection \<open>Status\<close>

text \<open>A settled round stays as it is under every call that does not start a round under its identifier.\<close>

lemma settled_kept_cashout:
  assumes "s_crashStore s r = Some c" and "cr_Settled c"
  shows "s_crashStore (snd (handleCrashCashout s env req)) r = Some c"
proof (cases "s_crashStore s (cco_RoundID req)")
  case None
  with assms show ?thesis by (simp add: handleCrashCashout_def CrashStore_Get_def)
next
  case (Some x)
  with assms show ?thesis
    by (cases "cco_RoundID req = r"; cases "ce_win env")
       (auto simp: handleCrashCashout_def CrashStore_Get_def CrashStore_Settle_def Let_def)
qed

lemma settled_kept_status:
  assumes "s_crashStore s r = Some c" and "cr_Settled c"
  shows "s_crashStore (snd (handleCrashStatus s now roundID token)) r = Some c"
proof (cases "s_crashStore s roundID")
  case None
  with assms show ?thesis by (simp add: handleCrashStatus_def CrashStore_Get_def)
next
  case (Some x)
  with assms show ?thesis
    by (cases "roundID = r")
       (auto simp: handleCrashStatus_def CrashStore_Get_def CrashStore_Settle_def Let_def)
qed

lemma settled_kept_start:
  assumes "s_crashStore s r = Some c"
    and "(if crs_RoundID req = [] then se_uuid env else crs_RoundID req) \<noteq> r"
    and "handleCrashRoundStart s env req = Some (resp, s')"
  shows "s_crashStore s' r = Some c"
  using assms
  by (auto simp: handleCrashRoundStart_def CrashStore_Create_def Let_def
           split: if_splits bet_answer.splits Option.bind_splits)

lemma settled_kept_call:
  assumes "s_crashStore s r = Some c" and "cr_Settled c" and "\<not> starts_round q r"
    and "crash_call s q = Some (resp, s')"
  shows "s_crashStore s' r = Some c"
proof (cases q)
  case (ReqStart env req)
  with assms show ?thesis by (auto dest: settled_kept_start)
next
  case (ReqCashout env req)
  with assms settled_kept_cashout [of s r c env req] show ?thesis by auto
next
  case (ReqStatus now roundID token)
  with assms settled_kept_status [of s r c now roundID token] show ?thesis by auto
qed

lemma settled_kept_run:
  assumes "crash_run s qs = Some s'" and "s_crashStore s r = Some c" and "cr_Settled c"
    and "\<forall>q\<in>set qs. \<not> starts_round q r"
  shows "s_crashStore s' r = Some c"
  using assms
proof (induction qs arbitrary: s)
  case Nil
  then show ?case by simp
next
  case (Cons q qs)
  from Cons.prems(1) obtain resp s1 where
    c: "crash_call s q = Some (resp, s1)" and r: "crash_run s1 qs = Some s'"
    by (auto split: option.splits)
  from Cons.prems c have "s_crashStore s1 r = Some c" by (auto dest: settled_kept_call)
  with Cons.IH [OF r] Cons.prems show ?case by simp
qed

lemma cashout_settled_conflict:
  assumes "s_crashStore s (cco_RoundID req) = Some c" and "cr_Settled c"
    and "cco_Token req \<noteq> []" and "cco_RoundID req \<noteq> []"
  shows "handleCrashCashout s env req =
           (APIError StatusConflict ''round already settled'' ''ROUND_SETTLED'', s)"
  using assms by (simp add: handleCrashCashout_def CrashStore_Get_def)

text \<open>
  Claim C7, amended. For an open round whose elapsed step has reached its crash step, a
  status query (with round identifier and token) reports \<open>crashed = true\<close> with the crash
  step and the crash multiplier and marks the round settled; and after any later calls of
  the crash handlers, none of which starts a round under this identifier, every cashout
  for the identifier (with a token) is answered by the already-settled conflict and leaves
  the state as it is.
\<close>

theorem status_closes_crashed_round:
  assumes "roundID \<noteq> []" and "token \<noteq> []"
    and "s_crashStore s roundID = Some cr" and "\<not> cr_Settled cr"
    and "cr_CrashStep cr \<le> currentStep now cr"
  shows "handleCrashStatus s now roundID token =
           (CrashStatusJSON StatusOK
              \<lparr>cst_roundId = roundID, cst_currentStep = currentStep now cr,
               cst_multiplier = Some (Multiplier (currentStep now cr)), cst_crashed = True,
               cst_crashStep = Some (cr_CrashStep cr),
               cst_crashMultiplier = Some (Multiplier (cr_CrashStep cr))\<rparr>,
            s\<lparr>s_crashStore := (s_crashStore s)(roundID \<mapsto> cr\<lparr>cr_Settled := True\<rparr>)\<rparr>) \<and>
         (\<forall>qs s' env req.
            crash_run (snd (handleCrashStatus s now roundID token)) qs = Some s' \<and>
            (\<forall>q\<in>set qs. \<not> starts_round q roundID) \<and>
            cco_Token req \<noteq> [] \<and> cco_RoundID req = roundID \<longrightarrow>
            handleCrashCashout s' env req =
              (APIError StatusConflict ''round already settled'' ''ROUND_SETTLED'', s'))"
proof -
  let ?s1 = "s\<lparr>s_crashStore := (s_crashStore s)(roundID \<mapsto> cr\<lparr>cr_Settled := True\<rparr>)\<rparr>"
  have st: "handleCrashStatus s now roundID token =
           (CrashStatusJSON StatusOK
              \<lparr>cst_roundId = roundID, cst_currentStep = currentStep now cr,
               cst_multiplier = Some (Multiplier (currentStep now cr)), cst_crashed = True,
               cst_crashStep = Some (cr_CrashStep cr),
               cst_crashMultiplier = Some (Multiplier (cr_CrashStep cr))\<rparr>, ?s1)"
    using assms by (simp add: handleCrashStatus_def CrashStore_Get_def CrashStore_Settle_def Let_def)
  have later: "handleCrashCashout s' env req =
              (APIError StatusConflict ''round already settled'' ''ROUND_SETTLED'', s')"
    if run: "crash_run ?s1 qs = Some s'" and ns: "\<forall>q\<in>set qs. \<not> starts_round q roundID"
      and tok: "cco_Token req \<noteq> []" and rid: "cco_RoundID req = roundID"
    for qs s' env req
  proof -
    have "s_crashStore s' roundID = Some (cr\<lparr>cr_Settled := True\<rparr>)"
      using run ns by (auto intro: settled_kept_run [where s = ?s1])
    with tok rid assms(1) show ?thesis
      by (intro cashout_settled_conflict [where c = "cr\<lparr>cr_Settled := True\<rparr>"]) auto
  qed
  from later have "\<forall>qs s' env req.
            crash_run ?s1 qs = Some s' \<and>
            (\<forall>q\<in>set qs. \<not> starts_round q roundID) \<and>
            cco_Token req \<noteq> [] \<and> cco_RoundID req = roundID \<longrightarrow>
            handleCrashCashout s' env req =
              (APIError StatusConflict ''round already settled'' ''ROUND_SETTLED'', s')"
    by blast
  with st show ?thesis by simp
qed

lemmas crash_eval =
  handleCrashStatus_def handleCrashCashout_def handleCrashRoundStart_def CrashStore_Get_def
  CrashStore_Settle_def CrashStore_Create_def GenerateCrashStep_def rand_Int_def CrashStepMin_def
  CrashStepMax_def currentStep_def Since_def Milliseconds_def signed_divide_int_def
  Multiplier_def StepSize_def Let_def ex_server_def ex_round_def ex_cashout_def
  ex_cashout_env_def ex_start_env_def ex_start_req_def

text \<open>The theorem on the example round, queried 6 seconds (60 steps) after its start, with
  three later calls before the cashout.\<close>

theorem status_closes_crashed_round_witness:
  "''r1'' \<noteq> [] \<and> ''tok'' \<noteq> [] \<and> s_crashStore ex_server ''r1'' = Some ex_round \<and>
   \<not> cr_Settled ex_round \<and> cr_CrashStep ex_round \<le> currentStep 6000000000 ex_round \<and>
   fst (handleCrashStatus ex_server 6000000000 ''r1'' ''tok'') =
     CrashStatusJSON StatusOK
       \<lparr>cst_roundId = ''r1'', cst_currentStep = 60, cst_multiplier = Some (8 / 5),
        cst_crashed = True, cst_crashStep = Some 50, cst_crashMultiplier = Some (3 / 2)\<rparr> \<and>
   (\<exists>s'. crash_run (snd (handleCrashStatus ex_server 6000000000 ''r1'' ''tok'')) ex_later = Some s' \<and>
      (\<forall>q\<in>set ex_later. \<not> starts_round q ''r1'') \<and>
      handleCrashCashout s' ex_cashout_env (ex_cashout 30) =
        (APIError StatusConflict ''round already settled'' ''ROUND_SETTLED'', s'))"
proof -
  have h: "''r1'' \<noteq> []" "''tok'' \<noteq> []" "s_crashStore ex_server ''r1'' = Some ex_round"
    "\<not> cr_Settled ex_round" "cr_CrashStep ex_round \<le> currentStep 6000000000 ex_round"
    by (simp_all add: crash_eval)
  note t = status_closes_crashed_round [OF h]
  obtain s' where r: "crash_run (snd (handleCrashStatus ex_server 6000000000 ''r1'' ''tok'')) ex_later = Some s'"
    by (simp add: ex_later_def crash_eval)
  have n: "\<forall>q\<in>set ex_later. \<not> starts_round q ''r1''"
    by (simp add: ex_later_def crash_eval)
  have "cco_Token (ex_cashout 30) \<noteq> [] \<and> cco_RoundID (ex_cashout 30) = ''r1''"
    by (simp add: ex_cashout_def)
  with t r n have "handleCrashCashout s' ex_cashout_env (ex_cashout 30) =
        (APIError StatusConflict ''round already settled'' ''ROUND_SETTLED'', s')"
    by blast
  moreover have "fst (handleCrashStatus ex_server 6000000000 ''r1'' ''tok'') =
     CrashStatusJSON StatusOK
       \<lparr>cst_roundId = ''r1'', cst_currentStep = 60, cst_multiplier = Some (8 / 5),
        cst_crashed = True, cst_crashStep = Some 50, cst_crashMultiplier = Some (3 / 2)\<rparr>"
    using t by (simp add: crash_eval)
  ultimately show ?thesis using h r n by blast
qed

text \<open>
  Claim C7 as stated fails. After the status query has closed the example round as
  crashed, a start request under the same identifier opens a new round, and a cashout for
  the identifier at step 30 is then a win (stake 5, payout 6.5).
\<close>

theorem status_then_cashout_counterexample:
  "cr_CrashStep ex_round \<le> currentStep 6000000000 ex_round \<and>
   (case handleCrashRoundStart (snd (handleCrashStatus ex_server 6000000000 ''r1'' ''tok''))
           ex_start_env ex_start_req of
      None \<Rightarrow> False
    | Some (resp, s2) \<Rightarrow>
        cashout_view (fst (handleCrashCashout s2 \<lparr>ce_now = 10000000000, ce_win = WinOk\<rparr>
                             (ex_cashout 30))) = Some (Won (13 / 2) (3 / 2)))"
  by (simp add: crash_eval cashout_view_def)

text \<open>Loading the store leaves out the settled rounds of the file.\<close>

lemma load_skips_settled:
  assumes "\<forall>x. Some x \<in> set entries \<and> cr_RoundID x = r \<longrightarrow> cr_Settled x"
  shows "CrashStore_load entries st r = st r"
  using assms
proof (induction entries st rule: CrashStore_load.induct)
  case (3 x rs s)
  show ?case
  proof (cases "cr_RoundID x \<noteq> [] \<and> \<not> cr_Settled x")
    case True
    with "3.prems" have n: "cr_RoundID x \<noteq> r" by auto
    from "3.prems" have p: "\<forall>y. Some y \<in> set rs \<and> cr_RoundID y = r \<longrightarrow> cr_Settled y" by auto
    have "CrashStore_load rs (s(cr_RoundID x \<mapsto> x)) r = (s(cr_RoundID x \<mapsto> x)) r"
      using True p by (rule "3.IH"(1))
    also have "\<dots> = s r" using n by simp
    finally show ?thesis using True by simp
  next
    case False
    from "3.prems" have p: "\<forall>y. Some y \<in> set rs \<and> cr_RoundID y = r \<longrightarrow> cr_Settled y" by auto
    have "CrashStore_load rs s r = s r" using False p by (rule "3.IH"(2))
    then show ?thesis using False by auto
  qed
qed simp_all

text \<open>
  Claim C10. A status query (with round identifier and token) for a round identifier that
  is not in the crash-round store is answered with status 200, \<open>currentStep = 0\<close> and
  \<open>crashed = false\<close>, and leaves the state as it is; so is a query for a round that was
  settled when the store was loaded from its file, since settled rounds are not loaded.
\<close>

theorem status_unknown_round:
  assumes "roundID \<noteq> []" and "token \<noteq> []"
  shows "(s_crashStore s roundID = None \<longrightarrow>
            handleCrashStatus s now roundID token =
              (CrashStatusJSON StatusOK
                 \<lparr>cst_roundId = roundID, cst_currentStep = 0, cst_multiplier = None,
                  cst_crashed = False, cst_crashStep = None, cst_crashMultiplier = None\<rparr>, s)) \<and>
         ((\<forall>x. Some x \<in> set entries \<and> cr_RoundID x = roundID \<longrightarrow> cr_Settled x) \<longrightarrow>
            fst (handleCrashStatus (s\<lparr>s_crashStore := CrashStore_load entries Map.empty\<rparr>)
                   now roundID token) =
              CrashStatusJSON StatusOK
                 \<lparr>cst_roundId = roundID, cst_currentStep = 0, cst_multiplier = None,
                  cst_crashed = False, cst_crashStep = None, cst_crashMultiplier = None\<rparr>)"
  using assms load_skips_settled [of entries roundID Map.empty]
  by (simp add: handleCrashStatus_def CrashStore_Get_def)

text \<open>The theorem on an identifier the example store does not hold, and on the example
  round settled and reloaded.\<close>

theorem status_unknown_round_witness:
  "''r9'' \<noteq> [] \<and> ''tok'' \<noteq> [] \<and> s_crashStore ex_server ''r9'' = None \<and>
   handleCrashStatus ex_server 6000000000 ''r9'' ''tok'' =
     (CrashStatusJSON StatusOK
        \<lparr>cst_roundId = ''r9'', cst_currentStep = 0, cst_multiplier = None,
         cst_crashed = False, cst_crashStep = None, cst_crashMultiplier = None\<rparr>, ex_server) \<and>
   cr_Settled (ex_round\<lparr>cr_Settled := True\<rparr>) \<and>
   fst (handleCrashStatus
          (ex_server\<lparr>s_crashStore := CrashStore_load [Some (ex_round\<lparr>cr_Settled := True\<rparr>)] Map.empty\<rparr>)
          6000000000 ''r1'' ''tok'') =
     CrashStatusJSON StatusOK
        \<lparr>cst_roundId = ''r1'', cst_currentStep = 0, cst_multiplier = None,
         cst_crashed = False, cst_crashStep = None, cst_crashMultiplier = None\<rparr>"
  using status_unknown_round [where roundID = "''r9''" and token = "''tok''" and s = ex_server
          and now = 6000000000 and entries = "[]"]
        status_unknown_round [where roundID = "''r1''" and token = "''tok''" and s = ex_server
          and now = 6000000000 and entries = "[Some (ex_round\<lparr>cr_Settled := True\<rparr>)]"]
  by (simp add: ex_server_def ex_round_def)

subsection \<open>Two settlement attempts on one round\<close>

text \<open>A call that runs alone, step by step, is the handler.\<close>

lemma cashout_alone:
  "run_schedule [0, 0, 0] (s, [CashoutStart env req]) =
     (snd (handleCrashCashout s env req), [Finished (fst (handleCrashCashout s env req))])"
proof (cases "s_crashStore s (cco_RoundID req)")
  case None
  then show ?thesis by (simp add: handleCrashCashout_def CrashStore_Get_def)
next
  case (Some cr)
  then show ?thesis
    by (cases "ce_win env") (simp_all add: handleCrashCashout_def CrashStore_Get_def Let_def)
qed

lemma status_alone:
  "run_schedule [0, 0] (s, [StatusStart now roundID token]) =
     (snd (handleCrashStatus s now roundID token), [Finished (fst (handleCrashStatus s now roundID token))])"
  by (cases "s_crashStore s roundID") (simp_all add: handleCrashStatus_def CrashStore_Get_def Let_def)

text \<open>One after the other, the second attempt finds the round settled: if the first is a
  cashout that settles the round (as a win or as a loss), a second cashout is answered by
  the already-settled conflict and changes nothing, and a status query changes nothing;
  if the first is a status query that finds the crash step reached, it settles the round
  without wallet call, and a cashout after it is answered by the already-settled conflict
  and changes nothing.\<close>

lemma serial_settlement_once:
  assumes "cco_Token a \<noteq> []" and "cco_RoundID a = r" and "cco_Token b \<noteq> []" and "cco_RoundID b = r"
    and "r \<noteq> []" and "token \<noteq> []"
    and "s_crashStore s r = Some cr" and "\<not> cr_Settled cr"
  shows "(\<forall>x s1. handleCrashCashout s ea a = (CrashCashoutJSON StatusOK x, s1) \<longrightarrow>
            s_crashStore s1 r = Some (cr\<lparr>cr_Settled := True\<rparr>) \<and>
            handleCrashCashout s1 eb b =
              (APIError StatusConflict ''round already settled'' ''ROUND_SETTLED'', s1) \<and>
            snd (handleCrashStatus s1 now r token) = s1) \<and>
         (cr_CrashStep cr \<le> currentStep now cr \<longrightarrow>
            s_crashStore (snd (handleCrashStatus s now r token)) r = Some (cr\<lparr>cr_Settled := True\<rparr>) \<and>
            s_calls (snd (handleCrashStatus s now r token)) = s_calls s \<and>
            handleCrashCashout (snd (handleCrashStatus s now r token)) eb b =
              (APIError StatusConflict ''round already settled'' ''ROUND_SETTLED'',
               snd (handleCrashStatus s now r token)))"
proof -
  have first: "s_crashStore s1 r = Some (cr\<lparr>cr_Settled := True\<rparr>) \<and>
            handleCrashCashout s1 eb b =
              (APIError StatusConflict ''round already settled'' ''ROUND_SETTLED'', s1) \<and>
            snd (handleCrashStatus s1 now r token) = s1"
    if h: "handleCrashCashout s ea a = (CrashCashoutJSON StatusOK x, s1)" for x s1
  proof -
    from h assms have st: "s_crashStore s1 r = Some (cr\<lparr>cr_Settled := True\<rparr>)"
      by (cases "ce_win ea")
         (auto simp: handleCrashCashout_def CrashStore_Get_def CrashStore_Settle_def Let_def
               split: if_splits)
    with assms have "handleCrashCashout s1 eb b =
              (APIError StatusConflict ''round already settled'' ''ROUND_SETTLED'', s1)"
      by (simp add: handleCrashCashout_def CrashStore_Get_def)
    moreover have "(s_crashStore s1)(r \<mapsto> cr\<lparr>cr_Settled := True\<rparr>) = s_crashStore s1"
      using st by (rule map_upd_triv)
    then have "snd (handleCrashStatus s1 now r token) = s1"
      using assms st
      by (simp add: handleCrashStatus_def CrashStore_Get_def CrashStore_Settle_def Let_def)
    ultimately show ?thesis using st by simp
  qed
  have second: "s_crashStore (snd (handleCrashStatus s now r token)) r = Some (cr\<lparr>cr_Settled := True\<rparr>) \<and>
            s_calls (snd (handleCrashStatus s now r token)) = s_calls s \<and>
            handleCrashCashout (snd (handleCrashStatus s now r token)) eb b =
              (APIError StatusConflict ''round already settled'' ''ROUND_SETTLED'',
               snd (handleCrashStatus s now r token))"
    if "cr_CrashStep cr \<le> currentStep now cr"
    using that assms
    by (simp add: handleCrashStatus_def handleCrashCashout_def CrashStore_Get_def
          CrashStore_Settle_def Let_def)
  from first second show ?thesis by blast
qed

text \<open>
  Claim C2: of two settlement attempts that run at the same time on an open round, exactly
  one performs the transition and has a financial effect. The code does not have this
  property. Two cashouts of the example round at step 30 interleave so that both read the
  round as open before either settles it: both call the wallet with a win of 130, both
  settle, and both answer \<open>cashedOut = true\<close>. And a cashout at step 30, 6 seconds (60
  steps) after the start, that has read the round as open when a status query finds the
  crash step 50 reached and closes the round as a loss, still sends its win of 130 to the
  wallet and answers \<open>cashedOut = true\<close>.
\<close>

theorem concurrent_cashout_settles_twice:
  "run_schedule [0, 1, 0, 0, 1, 1]
     (ex_server, [CashoutStart ex_cashout_env (ex_cashout 30),
                  CashoutStart ex_cashout_env (ex_cashout 30)]) =
   (ex_server\<lparr>s_crashStore := [''r1'' \<mapsto> ex_round\<lparr>cr_Settled := True\<rparr>],
              s_calls := [Win ''tok'' ''USD'' 130 ''Crash'', Win ''tok'' ''USD'' 130 ''Crash'']\<rparr>,
    [Finished (CrashCashoutJSON StatusOK
       \<lparr>cc_RoundID = ''r1'', cc_CashedOut = True, cc_WinAmount = 130, cc_BalanceDelta = 30,
        cc_Crashed = False, cc_CrashStep = 0\<rparr>),
     Finished (CrashCashoutJSON StatusOK
       \<lparr>cc_RoundID = ''r1'', cc_CashedOut = True, cc_WinAmount = 130, cc_BalanceDelta = 30,
        cc_Crashed = False, cc_CrashStep = 0\<rparr>)]) \<and>
   run_schedule [0, 1, 1, 0, 0]
     (ex_server, [CashoutStart \<lparr>ce_now = 6000000000, ce_win = WinOk\<rparr> (ex_cashout 30),
                  StatusStart 6000000000 ''r1'' ''tok'']) =
   (ex_server\<lparr>s_crashStore := [''r1'' \<mapsto> ex_round\<lparr>cr_Settled := True\<rparr>],
              s_calls := [Win ''tok'' ''USD'' 130 ''Crash'']\<rparr>,
    [Finished (CrashCashoutJSON StatusOK
       \<lparr>cc_RoundID = ''r1'', cc_CashedOut = True, cc_WinAmount = 130, cc_BalanceDelta = 30,
        cc_Crashed = False, cc_CrashStep = 0\<rparr>),
     Finished (CrashStatusJSON StatusOK
       \<lparr>cst_roundId = ''r1'', cst_currentStep = 60, cst_multiplier = Some (8 / 5),
        cst_crashed = True, cst_crashStep = Some 50, cst_crashMultiplier = Some (3 / 2)\<rparr>)])"
  by (simp add: crash_eval)

section \<open>Properties of the scratch handler\<close>

subsection \<open>Replay\<close>

lemma last_with_append:
  "last_with (l @ [x]) r = (if res_RoundID x = r then Some x else last_with l r)"
  by (induction l) (auto split: option.splits)

lemma last_with_id: "last_with l r = Some x \<Longrightarrow> res_RoundID x = r"
  by (induction l) (auto split: option.splits if_splits)

lemma scratch_operator_results:
  "scratch_operator s env p out = Inl (resp, s') \<Longrightarrow> s_results s' = s_results s"
  "scratch_operator s env p out = Inr (bd, s') \<Longrightarrow> s_results s' = s_results s"
  by (auto simp: scratch_operator_def Let_def split: db_answer.splits if_splits)

lemma scratch_client_results:
  "scratch_client s env p out = Inl (resp, s') \<Longrightarrow> s_results s' = s_results s"
  "scratch_client s env p out = Inr (bd, s') \<Longrightarrow> s_results s' = s_results s"
  by (auto simp: scratch_client_def Let_def split: bet_answer.splits win_answer.splits if_splits)

lemma scratch_operator_early:
  "scratch_operator s env p out = Inl (ScratchJSON st resp, s') \<Longrightarrow> sr_RoundID resp = sp_roundID p"
  by (auto simp: scratch_operator_def scratch_error_response_def Let_def split: db_answer.splits if_splits)

lemma scratch_client_early:
  "scratch_client s env p out = Inl (ScratchJSON st resp, s') \<Longrightarrow> False"
  by (auto simp: scratch_client_def Let_def split: bet_answer.splits win_answer.splits if_splits)

text \<open>The handler ends, from the wallet calls on, with an early response that leaves the
  results log alone, or with the record step.\<close>

lemma scratch_settle_cases:
  assumes "scratch_settle s env p out = (resp, s')"
  obtains (early) "s_results s' = s_results s" "\<And>st r. resp = ScratchJSON st r \<Longrightarrow> sr_RoundID r = sp_roundID p"
  | (recorded) bd s1 where "s_results s1 = s_results s" "(resp, s') = scratch_record s1 env p out bd"
proof (cases "if s_operator s then scratch_operator s env p out else scratch_client s env p out")
  case (Inl e)
  obtain r0 s0 where e: "e = (r0, s0)" by (cases e)
  with Inl assms have rs: "resp = r0" "s' = s0" by (simp_all add: scratch_settle_def)
  from Inl e have "s_results s0 = s_results s"
    by (auto split: if_splits dest: scratch_operator_results scratch_client_results)
  moreover have "sr_RoundID r = sp_roundID p" if "resp = ScratchJSON st r" for st r
    using Inl e rs that
    by (auto split: if_splits dest: scratch_operator_early scratch_client_early)
  ultimately show ?thesis using rs early by blast
next
  case (Inr b)
  obtain bd s1 where b: "b = (bd, s1)" by (cases b)
  with Inr assms have "(resp, s') = scratch_record s1 env p out bd" by (simp add: scratch_settle_def)
  moreover from Inr b have "s_results s1 = s_results s"
    by (auto split: if_splits dest: scratch_operator_results scratch_client_results)
  ultimately show ?thesis using recorded by blast
qed

lemma handler_cases:
  assumes "handleScratchRoundStart s g env req = Some (resp, s')"
  obtains (invalid) "scratch_normalize g env req = Inl resp" "s' = s"
  | (replay) p existing rs where "scratch_normalize g env req = Inr p"
      "ResultsStore_GetByRoundID (s_results s) (sc_mkdir_get env) (sc_read_get env) (sp_roundID p)
         = (Inr (Some existing), rs)"
      "resp = ScratchJSON StatusOK (scratch_replay existing)" "s' = s\<lparr>s_results := rs\<rparr>"
  | (settle) p g0 rs out where "scratch_normalize g env req = Inr p"
      "ResultsStore_GetByRoundID (s_results s) (sc_mkdir_get env) (sc_read_get env) (sp_roundID p)
         = (g0, rs)"
      "\<forall>e. g0 \<noteq> Inr (Some e)"
      "scratch_outcome (s_gameMath s) g (sp_betAmount p) (sc_tape env) = Some out"
      "scratch_settle (s\<lparr>s_results := rs\<rparr>) env p out = (resp, s')"
proof (cases "scratch_normalize g env req")
  case (Inl e)
  with assms invalid show ?thesis by (simp add: handleScratchRoundStart_def)
next
  case (Inr p)
  obtain g0 rs where g: "ResultsStore_GetByRoundID (s_results s) (sc_mkdir_get env)
                           (sc_read_get env) (sp_roundID p) = (g0, rs)"
    by (cases "ResultsStore_GetByRoundID (s_results s) (sc_mkdir_get env) (sc_read_get env)
                 (sp_roundID p)")
  show ?thesis
  proof (cases "\<exists>e. g0 = Inr (Some e)")
    case True
    then obtain e where "g0 = Inr (Some e)" by blast
    with assms Inr g replay show ?thesis by (simp add: handleScratchRoundStart_def)
  next
    case False
    with assms Inr g obtain out where
      "scratch_outcome (s_gameMath s) g (sp_betAmount p) (sc_tape env) = Some out"
      "scratch_settle (s\<lparr>s_results := rs\<rparr>) env p out = (resp, s')"
      by (cases g0; cases "projr g0")
         (auto simp: handleScratchRoundStart_def split: Option.bind_splits)
    with Inr g False settle show ?thesis by blast
  qed
qed

lemma GetByRoundID_listed:
  "ResultsStore_GetByRoundID (Dir (Listed l)) mk True r = (Inr (last_with l r), Dir (Listed l))"
  by (simp add: ResultsStore_GetByRoundID_def ensureDir_def)

lemma GetByRoundID_found:
  assumes "ResultsStore_GetByRoundID rs0 mk rd r = (Inr (Some e), rs)"
  shows "\<exists>l. rs0 = Dir (Listed l) \<and> rs = rs0 \<and> last_with l r = Some e"
  using assms
  by (auto simp: ResultsStore_GetByRoundID_def ensureDir_def
           split: ResultsStore.splits results_file.splits if_splits)

text \<open>The lookup changes nothing but a missing directory, and never leaves a list that was
  not there.\<close>

lemma GetByRoundID_kept:
  assumes "ResultsStore_GetByRoundID rs0 mk rd r = (g0, Dir (Listed l))"
  shows "rs0 = Dir (Listed l)"
  using assms
  by (auto simp: ResultsStore_GetByRoundID_def ensureDir_def
           split: ResultsStore.splits results_file.splits if_splits)

lemma GetByRoundID_missing:
  assumes "ResultsStore_GetByRoundID rs0 mk True r = (g0, Dir (Listed l))" and "\<forall>e. g0 \<noteq> Inr (Some e)"
  shows "last_with l r = None"
  using assms
  by (cases "last_with l r")
     (auto simp: ResultsStore_GetByRoundID_def ensureDir_def
           split: ResultsStore.splits results_file.splits if_splits)

text \<open>A list left by \<open>Append\<close> ends with the new result, or is the list there was.\<close>

lemma Append_listed:
  assumes "ResultsStore_Append rs mk rd wr x = (err, Dir (Listed l'))"
  shows "(\<exists>l0. l' = l0 @ [x]) \<or> rs = Dir (Listed l')"
  using assms
  by (auto simp: ResultsStore_Append_def ensureDir_def Let_def
           split: ResultsStore.splits results_file.splits if_splits write_answer.splits)

text \<open>On a log that is read and not cut off, \<open>Append\<close> of a result for another round leaves
  the last result of a round in its place.\<close>

lemma Append_keeps:
  assumes "last_with l r = Some x" and "res_RoundID y \<noteq> r" and "wr \<noteq> WriteTruncErr"
  shows "\<exists>l'. snd (ResultsStore_Append (Dir (Listed l)) mk True wr y) = Dir (Listed l') \<and>
              last_with l' r = Some x"
  using assms
  by (cases wr) (simp_all add: ResultsStore_Append_def ensureDir_def last_with_append)

lemma scratch_record_resp:
  "fst (scratch_record s env p out bd) =
     ScratchJSON StatusOK
       \<lparr>sr_RoundID = sp_roundID p, sr_Symbols = out_Symbols out,
        sr_WinAmount = out_WinAmount out, sr_BalanceDelta = bd,
        sr_Tier = out_Tier out, sr_Error = []\<rparr>"
  by (simp add: scratch_record_def Let_def split: prod.splits)

lemma scratch_result_eq:
  "scratch_result env p out bd =
     \<lparr>res_RoundID = sp_roundID p, res_BetID = [],
      res_Outcome = (if out_Match out then ''win'' else ''lose''),
      res_NextNumber = 0, res_BalanceDelta = bd, res_SettledAt = sc_now env,
      res_Symbols = [fst (out_Symbols out), fst (snd (out_Symbols out)), snd (snd (out_Symbols out))],
      res_WinAmount = out_WinAmount out\<rparr>"
  by (simp add: scratch_result_def Let_def split: prod.splits)

lemma scratch_record_state:
  "snd (scratch_record s env p out bd) =
     s\<lparr>s_results := snd (ResultsStore_Append (s_results s) (sc_mkdir_append env)
                           (sc_read_append env) (sc_write env) (scratch_result env p out bd))\<rparr>"
  by (simp add: scratch_record_def scratch_result_eq Let_def split: prod.splits)

lemma replay_scratch_result:
  "scratch_replay (scratch_result env p out bd) =
     \<lparr>sr_RoundID = sp_roundID p, sr_Symbols = out_Symbols out,
      sr_WinAmount = out_WinAmount out, sr_BalanceDelta = bd, sr_Tier = [], sr_Error = []\<rparr>"
  by (simp add: scratch_replay_def scratch_result_eq symbol_at_def)

text \<open>A call whose lookup reads a log in which \<open>x\<close> is the last result of the round answers
  from \<open>x\<close> and changes nothing.\<close>

lemma replay_of_record:
  assumes "s_results s = Dir (Listed l)" and "last_with l r = Some x"
    and "scratch_normalize g env req = Inr p" and "sp_roundID p = r" and "sc_read_get env"
  shows "handleScratchRoundStart s g env req = Some (ScratchJSON StatusOK (scratch_replay x), s)"
  using assms by (simp add: handleScratchRoundStart_def GetByRoundID_listed)

text \<open>A call that writes its result to the log puts it at the end of the log, under the
  round identifier of the request and with the outcome of the response.\<close>

lemma first_call_recorded:
  assumes n: "scratch_normalize g env req = Inr p"
    and h: "handleScratchRoundStart s g env req = Some (ScratchJSON st resp, s')"
    and l: "s_results s' = Dir (Listed l')" and c: "s_results s' \<noteq> s_results s"
  shows "\<exists>x pre. l' = pre @ [x] \<and> res_RoundID x = sp_roundID p \<and>
                 sr_RoundID resp = sp_roundID p \<and> scratch_replay x = resp\<lparr>sr_Tier := []\<rparr>"
  using h
proof (cases rule: handler_cases)
  case invalid
  with c show ?thesis by simp
next
  case (replay p' existing rs)
  from GetByRoundID_found [OF replay(2)] have "rs = s_results s" by blast
  with replay(4) c show ?thesis by simp
next
  case (settle p' g0 rs out)
  from settle(1) n have p': "p' = p" by simp
  from settle(5) show ?thesis
  proof (cases rule: scratch_settle_cases)
    case early
    with l have "rs = Dir (Listed l')" by simp
    with settle(2) have "s_results s = Dir (Listed l')" by (auto dest: GetByRoundID_kept)
    with l c show ?thesis by simp
  next
    case (recorded bd s1)
    have resp: "ScratchJSON st resp = fst (scratch_record s1 env p out bd)"
      and st: "s' = snd (scratch_record s1 env p out bd)"
      using recorded(2) p' by (metis fst_conv, metis snd_conv)
    from resp have r: "resp = \<lparr>sr_RoundID = sp_roundID p, sr_Symbols = out_Symbols out,
        sr_WinAmount = out_WinAmount out, sr_BalanceDelta = bd,
        sr_Tier = out_Tier out, sr_Error = []\<rparr>"
      by (simp add: scratch_record_resp)
    obtain err where a: "ResultsStore_Append rs (sc_mkdir_append env) (sc_read_append env)
              (sc_write env) (scratch_result env p out bd) = (err, Dir (Listed l'))"
      using st l recorded(1)
      by (cases "ResultsStore_Append rs (sc_mkdir_append env) (sc_read_append env) (sc_write env)
                   (scratch_result env p out bd)")
         (simp add: scratch_record_state)
    from Append_listed [OF a] show ?thesis
    proof
      assume "\<exists>l0. l' = l0 @ [scratch_result env p out bd]"
      then obtain l0 where "l' = l0 @ [scratch_result env p out bd]" by blast
      moreover have "res_RoundID (scratch_result env p out bd) = sp_roundID p"
        by (simp add: scratch_result_eq)
      moreover have "scratch_replay (scratch_result env p out bd) = resp\<lparr>sr_Tier := []\<rparr>"
        using r by (simp add: replay_scratch_result)
      ultimately show ?thesis using r by auto
    next
      assume "rs = Dir (Listed l')"
      with settle(2) have "s_results s = Dir (Listed l')" by (auto dest: GetByRoundID_kept)
      with l c show ?thesis by simp
    qed
  qed
qed

text \<open>The last result on record for a round stays in its place under every request that
  keeps the record.\<close>

lemma record_kept_scratch:
  assumes "s_results s = Dir (Listed l)" and "last_with l r = Some x"
    and "handleScratchRoundStart s g env req = Some (resp, s')"
    and "sc_read_get env" and "sc_read_append env" and "sc_write env \<noteq> WriteTruncErr"
  shows "\<exists>l'. s_results s' = Dir (Listed l') \<and> last_with l' r = Some x"
  using assms(3)
proof (cases rule: handler_cases)
  case invalid
  with assms show ?thesis by simp
next
  case (replay p existing rs)
  from replay(2) assms(1,4) have "rs = Dir (Listed l)" by (simp add: GetByRoundID_listed)
  with replay(4) have "s_results s' = Dir (Listed l)" by simp
  with assms(2) show ?thesis by blast
next
  case (settle p g0 rs out)
  from settle(2) assms(1,4) have rs: "rs = Dir (Listed l)" and g0: "g0 = Inr (last_with l (sp_roundID p))"
    by (simp_all add: GetByRoundID_listed)
  with settle(3) have none: "last_with l (sp_roundID p) = None"
    by (cases "last_with l (sp_roundID p)") auto
  with assms(2) have ne: "sp_roundID p \<noteq> r" by auto
  from settle(5) show ?thesis
  proof (cases rule: scratch_settle_cases)
    case early
    with rs assms show ?thesis by simp
  next
    case (recorded bd s1)
    from recorded(2) have "s' = snd (scratch_record s1 env p out bd)" by (metis snd_conv)
    then have "s_results s' = snd (ResultsStore_Append (Dir (Listed l)) (sc_mkdir_append env)
                 True (sc_write env) (scratch_result env p out bd))"
      using recorded(1) rs assms(5) by (simp add: scratch_record_state)
    moreover have "res_RoundID (scratch_result env p out bd) \<noteq> r"
      using ne by (simp add: scratch_result_eq)
    ultimately show ?thesis
      using Append_keeps [OF assms(2) _ assms(6), of "scratch_result env p out bd" "sc_mkdir_append env"]
      by simp
  qed
qed

lemma roundEnd_record_results:
  assumes "roundEnd_record s env req rnd outcome nextNum delta = (resp, s')"
  shows "\<exists>y. res_RoundID y = hr_RoundID req \<and>
             s_results s' = snd (ResultsStore_Append (s_results s) (ee_mkdir_append env)
                                   (ee_read_append env) (ee_write env) y)"
proof -
  let ?y = "\<lparr>res_RoundID = hr_RoundID req, res_BetID = rd_BetID rnd, res_Outcome = outcome,
             res_NextNumber = nextNum, res_BalanceDelta = delta, res_SettledAt = ee_now env,
             res_Symbols = [], res_WinAmount = 0\<rparr>"
  from assms have "s_results s' = snd (ResultsStore_Append (s_results s) (ee_mkdir_append env)
                                   (ee_read_append env) (ee_write env) ?y)"
    by (auto simp: roundEnd_record_def Let_def split: prod.splits)
  moreover have "res_RoundID ?y = hr_RoundID req" by simp
  ultimately show ?thesis by blast
qed

lemma roundEnd_results:
  assumes "roundEnd s env req = Some (resp, s')"
  shows "s_results s' = s_results s \<or>
         (\<exists>y. res_RoundID y = hr_RoundID req \<and>
               s_results s' = snd (ResultsStore_Append (s_results s) (ee_mkdir_append env)
                                     (ee_read_append env) (ee_write env) y))"
  using assms
  by (auto simp: roundEnd_def Let_def
           split: if_splits option.splits rollback_answer.splits win_answer.splits
           dest!: roundEnd_record_results)
     blast+

lemma record_kept_roundEnd:
  assumes "s_results s = Dir (Listed l)" and "last_with l r = Some x"
    and "roundEnd s env req = Some (resp, s')"
    and "hr_RoundID req \<noteq> r" and "ee_read_append env" and "ee_write env \<noteq> WriteTruncErr"
  shows "\<exists>l'. s_results s' = Dir (Listed l') \<and> last_with l' r = Some x"
proof -
  from roundEnd_results [OF assms(3)] show ?thesis
  proof
    assume "s_results s' = s_results s"
    with assms(1,2) show ?thesis by simp
  next
    assume "\<exists>y. res_RoundID y = hr_RoundID req \<and>
               s_results s' = snd (ResultsStore_Append (s_results s) (ee_mkdir_append env)
                                     (ee_read_append env) (ee_write env) y)"
    then obtain y where y: "res_RoundID y = hr_RoundID req"
      "s_results s' = snd (ResultsStore_Append (s_results s) (ee_mkdir_append env)
                             (ee_read_append env) (ee_write env) y)"
      by blast
    from y(1) assms(4) have "res_RoundID y \<noteq> r" by simp
    from Append_keeps [OF assms(2) this assms(6), of "ee_mkdir_append env"] y(2) assms(1,5)
    show ?thesis by simp
  qed
qed

lemma roundStart_results:
  "roundStart s env req = Some (resp, s') \<Longrightarrow> s_results s' = s_results s"
  by (auto simp: roundStart_def Let_def Store_Create_def
           split: if_splits bet_answer.splits option.splits)

lemma crash_call_results:
  "crash_call s q = Some (resp, s') \<Longrightarrow> s_results s' = s_results s"
  by (cases q)
     (auto simp: handleCrashRoundStart_def handleCrashCashout_def handleCrashStatus_def Let_def
           CrashStore_Create_def
           split: if_splits bet_answer.splits win_answer.splits option.splits
                  Option.bind_splits prod.splits)

lemma record_kept_call:
  assumes "s_results s = Dir (Listed l)" and "last_with l r = Some x"
    and "server_call s q = Some (resp, s')" and "keeps_record r q"
  shows "\<exists>l'. s_results s' = Dir (Listed l') \<and> last_with l' r = Some x"
proof (cases q)
  case (ReqScratch g env req)
  with assms show ?thesis by (auto intro: record_kept_scratch)
next
  case (ReqRoundStart env req)
  with assms show ?thesis by (auto dest: roundStart_results)
next
  case (ReqRoundEnd env req)
  with assms show ?thesis by (auto intro: record_kept_roundEnd)
next
  case (ReqCrash c)
  with assms show ?thesis by (auto dest: crash_call_results)
qed

lemma record_kept_run:
  assumes "server_run s qs = Some s'" and "s_results s = Dir (Listed l)" and "last_with l r = Some x"
    and "\<forall>q\<in>set qs. keeps_record r q"
  shows "\<exists>l'. s_results s' = Dir (Listed l') \<and> last_with l' r = Some x"
  using assms
proof (induction qs arbitrary: s l)
  case Nil
  then show ?case by simp
next
  case (Cons q qs)
  from Cons.prems(1) obtain resp s1 where
    h: "server_call s q = Some (resp, s1)" and r: "server_run s1 qs = Some s'"
    by (auto split: option.splits)
  from Cons.prems(4) have k: "keeps_record r q" and ks: "\<forall>q\<in>set qs. keeps_record r q" by simp_all
  from record_kept_call [OF Cons.prems(2,3) h k] obtain l1 where
    "s_results s1 = Dir (Listed l1)" "last_with l1 r = Some x" by blast
  with Cons.IH [OF r _ _ ks] show ?case by blast
qed

text \<open>
  Claim C1, amended. If a call of the scratch handler for the round \<open>r\<close> has answered with a
  round response and has written its result to the results log (the log after the call is
  a list and is not the log before the call), then the response carries the identifier
  \<open>r\<close>; and after any further requests to the server of which none ends a Hi/Lo round under
  the identifier \<open>r\<close> and none fails to read the log or cuts it off in a failing write,
  every call of the scratch handler that passes validation with the round identifier \<open>r\<close>
  (whatever its stake, game, and other answers of the environment) and whose lookup reads
  the log returns the response of the first call (round identifier, symbols, win amount,
  balance delta; the tier is left empty) and leaves the state as it is: no symbol is drawn
  (the empty tape suffices), no wallet call is made, nothing is appended.
\<close>

theorem replay_returns_recorded_result:
  assumes "scratch_normalize g1 env1 req1 = Inr p1"
    and "handleScratchRoundStart s g1 env1 req1 = Some (ScratchJSON st1 resp1, s1)"
    and "s_results s1 = Dir (Listed l1)" and "s_results s1 \<noteq> s_results s"
    and "server_run s1 between = Some s2"
    and "\<forall>q\<in>set between. keeps_record (sp_roundID p1) q"
    and "scratch_normalize g2 env2 req2 = Inr p2" and "sp_roundID p2 = sp_roundID p1"
    and "sc_read_get env2"
  shows "sr_RoundID resp1 = sp_roundID p1 \<and>
         handleScratchRoundStart s2 g2 env2 req2 =
           Some (ScratchJSON StatusOK (resp1\<lparr>sr_Tier := []\<rparr>), s2)"
proof -
  from first_call_recorded [OF assms(1-4)] obtain x pre where
    x: "l1 = pre @ [x]" "res_RoundID x = sp_roundID p1" "sr_RoundID resp1 = sp_roundID p1"
       "scratch_replay x = resp1\<lparr>sr_Tier := []\<rparr>"
    by blast
  from x(1,2) have "last_with l1 (sp_roundID p1) = Some x" by (simp add: last_with_append)
  from record_kept_run [OF assms(5,3) this assms(6)] obtain l2 where
    "s_results s2 = Dir (Listed l2)" "last_with l2 (sp_roundID p1) = Some x" by blast
  with assms(7-9) x show ?thesis by (simp add: replay_of_record)
qed

lemmas scratch_eval =
  handleScratchRoundStart_def scratch_normalize_def scratch_outcome_def scratch_settle_def
  scratch_client_def scratch_operator_def scratch_record_def scratch_result_def
  scratch_replay_def symbol_at_def ResultsStore_GetByRoundID_def ResultsStore_Append_def
  ensureDir_def MathStore_Get_def Generate_def draw_symbol_def secureIntn_def rand_Int_def
  symbols_def SymbolCherry_def SymbolLemon_def SymbolStar_def SymbolSeven_def WinMultiplier_def
  maxBet_def Let_def ex_server_def ex_scratch_req_def ex_scratch_env_def

lemmas hilo_eval =
  roundStart_def roundEnd_def roundEnd_record_def Store_Create_def Store_Get_def
  Store_Delete_def NextNumber_def minNum_def maxNum_def secureIntn_def rand_Int_def
  ResultsStore_Append_def ensureDir_def Let_def StatusOK_def
  ex_hilo_start_def ex_hilo_end_def ex_hilo_result_def ex_server_hilo_def

lemma ex_first_call:
  "handleScratchRoundStart ex_server ''scratch'' (ex_scratch_env [Rnd 0, Rnd 1, Rnd 2]) ex_scratch_req =
     Some (ScratchJSON StatusOK ex_scratch_response, ex_server_after)"
  by (simp add: scratch_eval ex_scratch_response_def ex_server_after_def ex_scratch_result_def)

lemma ex_hilo_run:
  "r \<noteq> [] \<Longrightarrow> server_run ex_server_after [ex_hilo_start r, ex_hilo_end r] = Some (ex_server_hilo r)"
  by (simp add: hilo_eval ex_server_after_def ex_server_def)

text \<open>
  The theorem on the example call for round \<open>s1\<close> with stake 10, followed by a Hi/Lo round
  under another identifier, and repeated with stake 25 and an empty tape.
\<close>

theorem replay_returns_recorded_result_witness:
  "scratch_normalize ''scratch'' (ex_scratch_env [Rnd 0, Rnd 1, Rnd 2]) ex_scratch_req =
     Inr ex_scratch_params \<and>
   handleScratchRoundStart ex_server ''scratch'' (ex_scratch_env [Rnd 0, Rnd 1, Rnd 2]) ex_scratch_req =
     Some (ScratchJSON StatusOK ex_scratch_response, ex_server_after) \<and>
   s_results ex_server_after = Dir (Listed [ex_scratch_result]) \<and>
   s_results ex_server_after \<noteq> s_results ex_server \<and>
   server_run ex_server_after [ex_hilo_start ''h1'', ex_hilo_end ''h1''] = Some (ex_server_hilo ''h1'') \<and>
   keeps_record ''s1'' (ex_hilo_start ''h1'') \<and> keeps_record ''s1'' (ex_hilo_end ''h1'') \<and>
   sc_read_get (ex_scratch_env []) \<and>
   handleScratchRoundStart (ex_server_hilo ''h1'') ''scratch'' (ex_scratch_env [])
       (ex_scratch_req\<lparr>sq_BetAmount := 25\<rparr>) =
     Some (ScratchJSON StatusOK ex_scratch_response, ex_server_hilo ''h1'')"
proof -
  have n: "scratch_normalize ''scratch'' (ex_scratch_env [Rnd 0, Rnd 1, Rnd 2]) ex_scratch_req =
     Inr ex_scratch_params"
    by (simp add: scratch_normalize_def ex_scratch_req_def ex_scratch_env_def maxBet_def Let_def
          ex_scratch_params_def)
  have a: "s_results ex_server_after = Dir (Listed [ex_scratch_result])"
    by (simp add: ex_server_after_def)
  have b: "s_results ex_server_after \<noteq> s_results ex_server"
    by (simp add: ex_server_after_def ex_server_def)
  have k: "\<forall>q\<in>set [ex_hilo_start ''h1'', ex_hilo_end ''h1'']. keeps_record (sp_roundID ex_scratch_params) q"
    by (simp add: ex_hilo_start_def ex_hilo_end_def ex_scratch_params_def)
  have d: "scratch_normalize ''scratch'' (ex_scratch_env []) (ex_scratch_req\<lparr>sq_BetAmount := 25\<rparr>) =
      Inr (ex_scratch_params\<lparr>sp_betAmount := 25\<rparr>)"
    by (simp add: scratch_normalize_def ex_scratch_req_def ex_scratch_env_def maxBet_def Let_def
          ex_scratch_params_def)
  have e: "sp_roundID (ex_scratch_params\<lparr>sp_betAmount := 25\<rparr>) = sp_roundID ex_scratch_params"
    by simp
  have r: "sc_read_get (ex_scratch_env [])" by (simp add: ex_scratch_env_def)
  have h: "server_run ex_server_after [ex_hilo_start ''h1'', ex_hilo_end ''h1''] =
             Some (ex_server_hilo ''h1'')"
    by (rule ex_hilo_run) simp
  from replay_returns_recorded_result [OF n ex_first_call a b h k d e r]
    n ex_first_call a b h k r
  show ?thesis by (simp add: ex_scratch_response_def)
qed

text \<open>
  Claim C1 as stated fails. The example call has recorded its result for the round \<open>s1\<close>
  (cherry, lemon, star: a loss of 10). After a Hi/Lo round under the same identifier \<open>s1\<close>
  has ended, a call of the scratch handler for \<open>s1\<close> answers from the Hi/Lo result: no
  symbols, balance delta 5. And a call for \<open>s1\<close> right after the first whose lookup fails
  to read the log draws a second outcome (three sevens), places a second bet, pays a win of
  20 and records a second result.
\<close>

theorem replay_returns_recorded_result_counterexample:
  "handleScratchRoundStart ex_server ''scratch'' (ex_scratch_env [Rnd 0, Rnd 1, Rnd 2]) ex_scratch_req =
     Some (ScratchJSON StatusOK ex_scratch_response, ex_server_after) \<and>
   s_results ex_server_after = Dir (Listed [ex_scratch_result]) \<and>
   server_run ex_server_after [ex_hilo_start ''s1'', ex_hilo_end ''s1''] = Some (ex_server_hilo ''s1'') \<and>
   handleScratchRoundStart (ex_server_hilo ''s1'') ''scratch'' (ex_scratch_env []) ex_scratch_req =
     Some (ScratchJSON StatusOK
             \<lparr>sr_RoundID = ''s1'', sr_Symbols = ([], [], []), sr_WinAmount = 0,
              sr_BalanceDelta = 5, sr_Tier = [], sr_Error = []\<rparr>, ex_server_hilo ''s1'') \<and>
   handleScratchRoundStart ex_server_after ''scratch''
       ((ex_scratch_env [Rnd 3, Rnd 3, Rnd 3])\<lparr>sc_read_get := False\<rparr>) ex_scratch_req =
     Some (ScratchJSON StatusOK
             \<lparr>sr_RoundID = ''s1'', sr_Symbols = (''seven'', ''seven'', ''seven''),
              sr_WinAmount = 20, sr_BalanceDelta = 10, sr_Tier = [], sr_Error = []\<rparr>,
           ex_server_after
             \<lparr>s_results := Dir (Listed [ex_scratch_result,
                  \<lparr>res_RoundID = ''s1'', res_BetID = [], res_Outcome = ''win'', res_NextNumber = 0,
                   res_BalanceDelta = 10, res_SettledAt = 1000,
                   res_Symbols = [''seven'', ''seven'', ''seven''], res_WinAmount = 20\<rparr>]),
              s_calls := [Bet ''sess'' ''USD'' 10 ''Scratch'', Bet ''sess'' ''USD'' 10 ''Scratch'',
                          Win ''sess'' ''USD'' 20 ''Scratch'']\<rparr>)"
proof -
  have a: "s_results ex_server_after = Dir (Listed [ex_scratch_result])"
    by (simp add: ex_server_after_def)
  have b: "handleScratchRoundStart (ex_server_hilo ''s1'') ''scratch'' (ex_scratch_env []) ex_scratch_req =
     Some (ScratchJSON StatusOK
             \<lparr>sr_RoundID = ''s1'', sr_Symbols = ([], [], []), sr_WinAmount = 0,
              sr_BalanceDelta = 5, sr_Tier = [], sr_Error = []\<rparr>, ex_server_hilo ''s1'')"
    by (simp add: scratch_eval ex_server_hilo_def ex_hilo_result_def ex_scratch_result_def)
  have c: "handleScratchRoundStart ex_server_after ''scratch''
       ((ex_scratch_env [Rnd 3, Rnd 3, Rnd 3])\<lparr>sc_read_get := False\<rparr>) ex_scratch_req =
     Some (ScratchJSON StatusOK
             \<lparr>sr_RoundID = ''s1'', sr_Symbols = (''seven'', ''seven'', ''seven''),
              sr_WinAmount = 20, sr_BalanceDelta = 10, sr_Tier = [], sr_Error = []\<rparr>,
           ex_server_after
             \<lparr>s_results := Dir (Listed [ex_scratch_result,
                  \<lparr>res_RoundID = ''s1'', res_BetID = [], res_Outcome = ''win'', res_NextNumber = 0,
                   res_BalanceDelta = 10, res_SettledAt = 1000,
                   res_Symbols = [''seven'', ''seven'', ''seven''], res_WinAmount = 20\<rparr>]),
              s_calls := [Bet ''sess'' ''USD'' 10 ''Scratch'', Bet ''sess'' ''USD'' 10 ''Scratch'',
                          Win ''sess'' ''USD'' 20 ''Scratch'']\<rparr>)"
    by (simp add: scratch_eval ex_server_after_def ex_scratch_result_def)
  have h: "server_run ex_server_after [ex_hilo_start ''s1'', ex_hilo_end ''s1''] =
             Some (ex_server_hilo ''s1'')"
    by (rule ex_hilo_run) simp
  from ex_first_call a h b c show ?thesis by simp
qed

subsection \<open>Failing persistence\<close>

text \<open>The answers that make \<open>Append\<close> fail reach neither the response nor the wallet calls.\<close>

lemma normalize_flags:
  "scratch_normalize g (env\<lparr>sc_mkdir_append := a, sc_read_append := b, sc_write := c\<rparr>) req =
   scratch_normalize g env req"
  by (simp add: scratch_normalize_def Let_def)

lemma operator_flags:
  "scratch_operator s (env\<lparr>sc_mkdir_append := a, sc_read_append := b, sc_write := c\<rparr>) p out =
   scratch_operator s env p out"
  by (simp add: scratch_operator_def Let_def split: db_answer.splits)

lemma client_flags:
  "scratch_client s (env\<lparr>sc_mkdir_append := a, sc_read_append := b, sc_write := c\<rparr>) p out =
   scratch_client s env p out"
  by (simp add: scratch_client_def Let_def split: bet_answer.splits win_answer.splits)

lemma record_calls: "s_calls (snd (scratch_record s env p out bd)) = s_calls s"
  by (simp add: scratch_record_state)

lemma settle_flags:
  "(\<lambda>(resp, s'). (resp, s_calls s'))
     (scratch_settle s (env\<lparr>sc_mkdir_append := a, sc_read_append := b, sc_write := c\<rparr>) p out) =
   (\<lambda>(resp, s'). (resp, s_calls s')) (scratch_settle s env p out)"
proof -
  let ?env = "env\<lparr>sc_mkdir_append := a, sc_read_append := b, sc_write := c\<rparr>"
  let ?w = "if s_operator s then scratch_operator s env p out else scratch_client s env p out"
  have w: "(if s_operator s then scratch_operator s ?env p out
            else scratch_client s ?env p out) = ?w"
    by (simp add: operator_flags client_flags)
  show ?thesis
    unfolding scratch_settle_def w
    by (cases ?w) (auto simp: split_beta scratch_record_resp record_calls)
qed

lemma persistence_error_discarded:
  "map_option (\<lambda>(resp, s'). (resp, s_calls s')) (handleScratchRoundStart s g env req) =
   map_option (\<lambda>(resp, s'). (resp, s_calls s'))
     (handleScratchRoundStart s g
        (env\<lparr>sc_mkdir_append := True, sc_read_append := True, sc_write := WriteOk\<rparr>) req)"
proof (cases "scratch_normalize g env req")
  case (Inl e)
  then show ?thesis by (simp add: handleScratchRoundStart_def normalize_flags)
next
  case (Inr p)
  obtain g0 rs where g: "ResultsStore_GetByRoundID (s_results s) (sc_mkdir_get env)
                           (sc_read_get env) (sp_roundID p) = (g0, rs)"
    by (cases "ResultsStore_GetByRoundID (s_results s) (sc_mkdir_get env) (sc_read_get env)
                 (sp_roundID p)")
  show ?thesis
  proof (cases "\<exists>e. g0 = Inr (Some e)")
    case True
    with Inr g show ?thesis by (auto simp: handleScratchRoundStart_def normalize_flags)
  next
    case False
    show ?thesis
    proof (cases "scratch_outcome (s_gameMath s) g (sp_betAmount p) (sc_tape env)")
      case None
      with Inr g False show ?thesis
        by (cases g0; cases "projr g0") (auto simp: handleScratchRoundStart_def normalize_flags)
    next
      case (Some out)
      with Inr g False
        settle_flags [where s = "s\<lparr>s_results := rs\<rparr>" and env = env and a = True and b = True
                        and c = WriteOk and p = p and out = out]
      show ?thesis
        by (cases g0; cases "projr g0") (auto simp: handleScratchRoundStart_def normalize_flags)
    qed
  qed
qed

text \<open>A failed \<open>Append\<close> leaves the log as it was, or without its list.\<close>

lemma Append_failed:
  assumes "ResultsStore_Append rs mk rd wr x = (Some err, rs')"
  shows "rs' = rs \<or> rs' = Dir NoFile \<or> rs' = Dir (Unparsable [])"
  using assms
  by (auto simp: ResultsStore_Append_def ensureDir_def Let_def
           split: ResultsStore.splits results_file.splits if_splits write_answer.splits)

lemma handler_settles:
  assumes "scratch_normalize g env req = Inr p"
    and "ResultsStore_GetByRoundID (s_results s) (sc_mkdir_get env) (sc_read_get env)
           (sp_roundID p) = (g0, rs)"
    and "\<forall>e. g0 \<noteq> Inr (Some e)"
  shows "handleScratchRoundStart s g env req =
           map_option (scratch_settle (s\<lparr>s_results := rs\<rparr>) env p)
             (scratch_outcome (s_gameMath s) g (sp_betAmount p) (sc_tape env))"
  using assms
  by (cases g0; cases "projr g0";
      cases "scratch_outcome (s_gameMath s) g (sp_betAmount p) (sc_tape env)")
     (auto simp: handleScratchRoundStart_def)

text \<open>
  Claim C4, amended. If an instant round gets as far as the record step (the request is
  valid, the lookup finds no result on record, an outcome is drawn, the wallet calls
  succeed) and \<open>Append\<close> fails, the handler still answers with status 200 and the outcome
  and balance delta of the round, after the wallet calls, and nothing is recorded: a log
  that is a list after the call is the list it was before the call, and, if the lookup
  has read it, holds no result for the round.
\<close>

theorem persistence_failure_reported_as_success:
  assumes "scratch_normalize g env req = Inr p"
    and "ResultsStore_GetByRoundID (s_results s) (sc_mkdir_get env) (sc_read_get env)
           (sp_roundID p) = (g0, rs)"
    and "\<forall>e. g0 \<noteq> Inr (Some e)"
    and "scratch_outcome (s_gameMath s) g (sp_betAmount p) (sc_tape env) = Some out"
    and "(if s_operator s then scratch_operator (s\<lparr>s_results := rs\<rparr>) env p out
          else scratch_client (s\<lparr>s_results := rs\<rparr>) env p out) = Inr (bd, s1)"
    and "fst (ResultsStore_Append rs (sc_mkdir_append env) (sc_read_append env) (sc_write env)
                (scratch_result env p out bd)) = Some err"
  shows "\<exists>s'. handleScratchRoundStart s g env req =
                 Some (ScratchJSON StatusOK
                         \<lparr>sr_RoundID = sp_roundID p, sr_Symbols = out_Symbols out,
                          sr_WinAmount = out_WinAmount out, sr_BalanceDelta = bd,
                          sr_Tier = out_Tier out, sr_Error = []\<rparr>, s') \<and>
              s_calls s' = s_calls s1 \<and>
              (\<forall>l. s_results s' = Dir (Listed l) \<longrightarrow>
                 s_results s = Dir (Listed l) \<and>
                 (sc_read_get env \<longrightarrow> last_with l (sp_roundID p) = None))"
proof -
  let ?s' = "snd (scratch_record s1 env p out bd)"
  have r1: "s_results s1 = rs"
    using assms(5) by (auto split: if_splits dest: scratch_operator_results scratch_client_results)
  have h: "handleScratchRoundStart s g env req = Some (scratch_record s1 env p out bd)"
    using assms(4,5) by (simp add: handler_settles [OF assms(1-3)] scratch_settle_def)
  obtain rs' where a: "ResultsStore_Append rs (sc_mkdir_append env) (sc_read_append env)
                (sc_write env) (scratch_result env p out bd) = (Some err, rs')"
    using assms(6)
    by (cases "ResultsStore_Append rs (sc_mkdir_append env) (sc_read_append env) (sc_write env)
                 (scratch_result env p out bd)") simp
  have res: "s_results ?s' = rs'" using a r1 by (simp add: scratch_record_state)
  have "s_results s = Dir (Listed l) \<and> (sc_read_get env \<longrightarrow> last_with l (sp_roundID p) = None)"
    if "s_results ?s' = Dir (Listed l)" for l
  proof -
    from that res Append_failed [OF a] have rs: "rs = Dir (Listed l)" by auto
    with assms(2) have "s_results s = Dir (Listed l)" by (auto dest: GetByRoundID_kept)
    moreover have "last_with l (sp_roundID p) = None" if "sc_read_get env"
      using assms(2,3) rs that by (auto dest: GetByRoundID_missing)
    ultimately show ?thesis by blast
  qed
  moreover have "scratch_record s1 env p out bd =
      (ScratchJSON StatusOK
         \<lparr>sr_RoundID = sp_roundID p, sr_Symbols = out_Symbols out,
          sr_WinAmount = out_WinAmount out, sr_BalanceDelta = bd,
          sr_Tier = out_Tier out, sr_Error = []\<rparr>, ?s')"
    using scratch_record_resp [of s1 env p out bd] by (metis prod.collapse)
  ultimately show ?thesis using h by (auto simp: record_calls)
qed

text \<open>
  Claim C4 as stated fails. In the example call with a failing \<open>os.WriteFile\<close>, \<open>Append\<close>
  returns a write error, the bet has been placed, nothing is recorded, and the response
  is the same status 200 with the outcome of the round.
\<close>

theorem persistence_failure_counterexample:
  "fst (ResultsStore_Append (Dir NoFile) True True WriteOpenErr ex_scratch_result) = Some WriteError \<and>
   handleScratchRoundStart ex_server ''scratch'' (ex_scratch_env_nowrite [Rnd 0, Rnd 1, Rnd 2])
       ex_scratch_req =
     Some (ScratchJSON StatusOK ex_scratch_response,
           ex_server\<lparr>s_results := Dir NoFile, s_calls := [Bet ''sess'' ''USD'' 10 ''Scratch'']\<rparr>)"
  by (simp add: scratch_eval ex_scratch_env_nowrite_def ex_scratch_response_def
        ex_scratch_result_def)

text \<open>
  The theorem on that call.
\<close>

theorem persistence_failure_reported_as_success_witness:
  "scratch_normalize ''scratch'' (ex_scratch_env_nowrite [Rnd 0, Rnd 1, Rnd 2]) ex_scratch_req =
     Inr ex_scratch_params \<and>
   ResultsStore_GetByRoundID (s_results ex_server) True True ''s1'' = (Inl ReadError, Dir NoFile) \<and>
   scratch_outcome (s_gameMath ex_server) ''scratch'' 10 [Rnd 0, Rnd 1, Rnd 2] = Some ex_scratch_outcome \<and>
   fst (ResultsStore_Append (Dir NoFile) True True WriteOpenErr
          (scratch_result (ex_scratch_env_nowrite [Rnd 0, Rnd 1, Rnd 2]) ex_scratch_params
             ex_scratch_outcome (- 10))) = Some WriteError \<and>
   map_option fst (handleScratchRoundStart ex_server ''scratch''
       (ex_scratch_env_nowrite [Rnd 0, Rnd 1, Rnd 2]) ex_scratch_req) =
     Some (ScratchJSON StatusOK ex_scratch_response)"
proof -
  let ?env = "ex_scratch_env_nowrite [Rnd 0, Rnd 1, Rnd 2]"
  have a: "scratch_normalize ''scratch'' ?env ex_scratch_req = Inr ex_scratch_params"
    by (simp add: scratch_eval ex_scratch_env_nowrite_def ex_scratch_params_def)
  have b: "ResultsStore_GetByRoundID (s_results ex_server) (sc_mkdir_get ?env) (sc_read_get ?env)
             (sp_roundID ex_scratch_params) = (Inl ReadError, Dir NoFile)"
    by (simp add: scratch_eval ex_scratch_env_nowrite_def ex_scratch_params_def)
  have c: "\<forall>e. (Inl ReadError :: error + Result option) \<noteq> Inr (Some e)" by simp
  have d: "scratch_outcome (s_gameMath ex_server) ''scratch'' (sp_betAmount ex_scratch_params)
             (sc_tape ?env) = Some ex_scratch_outcome"
    by (simp add: scratch_eval ex_scratch_env_nowrite_def ex_scratch_params_def ex_scratch_outcome_def)
  have e: "(if s_operator ex_server
            then scratch_operator (ex_server\<lparr>s_results := Dir NoFile\<rparr>) ?env ex_scratch_params ex_scratch_outcome
            else scratch_client (ex_server\<lparr>s_results := Dir NoFile\<rparr>) ?env ex_scratch_params ex_scratch_outcome)
           = Inr (- 10, ex_server\<lparr>s_results := Dir NoFile, s_calls := [Bet ''sess'' ''USD'' 10 ''Scratch'']\<rparr>)"
    by (simp add: scratch_eval ex_scratch_env_nowrite_def ex_scratch_params_def ex_scratch_outcome_def)
  have f: "fst (ResultsStore_Append (Dir NoFile) (sc_mkdir_append ?env) (sc_read_append ?env)
                (sc_write ?env)
                (scratch_result ?env ex_scratch_params ex_scratch_outcome (- 10))) = Some WriteError"
    by (simp add: scratch_eval ex_scratch_env_nowrite_def)
  from persistence_failure_reported_as_success [OF a b c d e f] a b d f
  show ?thesis
    by (auto simp: ex_scratch_response_def ex_scratch_params_def ex_scratch_outcome_def
          ex_scratch_env_nowrite_def ex_scratch_env_def ex_server_def)
qed

subsection \<open>Missing and unusable models\<close>

lemma Generate_legacy:
  assumes "Generate bet tp = Some (out, tp')"
  shows "out_Tier out = [] \<and> out_Match out = all_equal (out_Symbols out) \<and>
         out_WinAmount out = (if all_equal (out_Symbols out) then bet * 2 else 0)"
  using assms
  by (auto simp: Generate_def Let_def all_equal_def WinMultiplier_def split: Option.bind_splits)

text \<open>
  Claim C3, amended. When a valid request with no result on record is for a game without
  registered model, or with a model on which \<open>PickTier\<close> returns \<open>ok = false\<close>, the handler
  goes on with the outcome of the legacy generator \<open>Generate\<close> as with any other outcome:
  three symbols, no tier, and a win of twice the stake when the three symbols match, else
  0. No configuration error is returned.
\<close>

theorem unusable_model_falls_back:
  assumes "scratch_normalize g env req = Inr p"
    and "ResultsStore_GetByRoundID (s_results s) (sc_mkdir_get env) (sc_read_get env)
           (sp_roundID p) = (g0, rs)"
    and "\<forall>e. g0 \<noteq> Inr (Some e)"
    and "(MathStore_Get (s_gameMath s) g = None \<and> tp' = sc_tape env) \<or>
         (\<exists>m tier. MathStore_Get (s_gameMath s) g = Some m \<and>
                    PickTier (Some m) (sc_tape env) = Some ((tier, False), tp'))"
  shows "handleScratchRoundStart s g env req =
           map_option (\<lambda>(out, t). scratch_settle (s\<lparr>s_results := rs\<rparr>) env p out)
             (Generate (sp_betAmount p) tp') \<and>
         (\<forall>out t. Generate (sp_betAmount p) tp' = Some (out, t) \<longrightarrow>
            out_Tier out = [] \<and> out_Match out = all_equal (out_Symbols out) \<and>
            out_WinAmount out = (if all_equal (out_Symbols out) then sp_betAmount p * 2 else 0))"
proof -
  have "scratch_outcome (s_gameMath s) g (sp_betAmount p) (sc_tape env) =
          map_option fst (Generate (sp_betAmount p) tp')"
    using assms(4)
    by (auto simp: scratch_outcome_def GenerateWithMath_def)
  then have "handleScratchRoundStart s g env req =
           map_option (\<lambda>(out, t). scratch_settle (s\<lparr>s_results := rs\<rparr>) env p out)
             (Generate (sp_betAmount p) tp')"
    by (cases "Generate (sp_betAmount p) tp'") (auto simp: handler_settles [OF assms(1-3)])
  then show ?thesis by (auto dest: Generate_legacy)
qed

text \<open>
  Claim C3 as stated fails. For a game whose registered model has no usable weight, and
  for a game without model, the example call on the tape \<open>[Rnd 0, Rnd 0, Rnd 0]\<close> is
  answered with status 200 and a win of 20 (three cherries), and the win is paid.
\<close>

theorem unusable_model_counterexample:
  "MathStore_Get (s_gameMath ex_server_zero) ''scratch'' = Some ex_model_zero \<and>
   PickTier (Some ex_model_zero) [Rnd 0, Rnd 0, Rnd 0] =
     Some ((zero_PrizeTier, False), [Rnd 0, Rnd 0, Rnd 0]) \<and>
   map_option (\<lambda>(resp, s'). (resp, s_calls s'))
     (handleScratchRoundStart ex_server_zero ''scratch'' (ex_scratch_env [Rnd 0, Rnd 0, Rnd 0])
        ex_scratch_req) =
     Some (ScratchJSON StatusOK ex_win_response,
           [Bet ''sess'' ''USD'' 10 ''Scratch'', Win ''sess'' ''USD'' 20 ''Scratch'']) \<and>
   MathStore_Get (s_gameMath ex_server) ''scratch'' = None \<and>
   map_option (\<lambda>(resp, s'). (resp, s_calls s'))
     (handleScratchRoundStart ex_server ''scratch'' (ex_scratch_env [Rnd 0, Rnd 0, Rnd 0])
        ex_scratch_req) =
     Some (ScratchJSON StatusOK ex_win_response,
           [Bet ''sess'' ''USD'' 10 ''Scratch'', Win ''sess'' ''USD'' 20 ''Scratch''])"
  by (simp add: scratch_eval ex_server_zero_def ex_model_zero_def ex_win_response_def
        GenerateWithMath_def PickTier_def word_sle_eq)

text \<open>
  The theorem on the first of these calls.
\<close>

theorem unusable_model_falls_back_witness:
  "scratch_normalize ''scratch'' (ex_scratch_env [Rnd 0, Rnd 0, Rnd 0]) ex_scratch_req =
     Inr ex_scratch_params \<and>
   ResultsStore_GetByRoundID (s_results ex_server_zero) True True ''s1'' = (Inl ReadError, Dir NoFile) \<and>
   MathStore_Get (s_gameMath ex_server_zero) ''scratch'' = Some ex_model_zero \<and>
   PickTier (Some ex_model_zero) [Rnd 0, Rnd 0, Rnd 0] =
     Some ((zero_PrizeTier, False), [Rnd 0, Rnd 0, Rnd 0]) \<and>
   map_option fst (Generate 10 [Rnd 0, Rnd 0, Rnd 0]) =
     Some \<lparr>out_Symbols = (''cherry'', ''cherry'', ''cherry''), out_WinAmount = 20,
           out_Match = True, out_Tier = []\<rparr> \<and>
   map_option fst (handleScratchRoundStart ex_server_zero ''scratch''
       (ex_scratch_env [Rnd 0, Rnd 0, Rnd 0]) ex_scratch_req) =
     Some (ScratchJSON StatusOK ex_win_response)"
proof -
  let ?env = "ex_scratch_env [Rnd 0, Rnd 0, Rnd 0]"
  have a: "scratch_normalize ''scratch'' ?env ex_scratch_req = Inr ex_scratch_params"
    by (simp add: scratch_eval ex_scratch_params_def)
  have b: "ResultsStore_GetByRoundID (s_results ex_server_zero) (sc_mkdir_get ?env)
             (sc_read_get ?env) (sp_roundID ex_scratch_params) = (Inl ReadError, Dir NoFile)"
    by (simp add: scratch_eval ex_scratch_params_def ex_server_zero_def)
  have c: "\<forall>e. (Inl ReadError :: error + Result option) \<noteq> Inr (Some e)" by simp
  have m: "MathStore_Get (s_gameMath ex_server_zero) ''scratch'' = Some ex_model_zero"
    by (simp add: MathStore_Get_def ex_server_zero_def ex_server_def)
  have t: "PickTier (Some ex_model_zero) (sc_tape ?env) =
             Some ((zero_PrizeTier, False), [Rnd 0, Rnd 0, Rnd 0])"
    by (simp add: PickTier_def ex_model_zero_def ex_scratch_env_def word_sle_eq)
  from m t have d: "(MathStore_Get (s_gameMath ex_server_zero) ''scratch'' = None \<and>
                     [Rnd 0, Rnd 0, Rnd 0] = sc_tape ?env) \<or>
         (\<exists>m tier. MathStore_Get (s_gameMath ex_server_zero) ''scratch'' = Some m \<and>
                    PickTier (Some m) (sc_tape ?env) = Some ((tier, False), [Rnd 0, Rnd 0, Rnd 0]))"
    by blast
  have g: "Generate 10 [Rnd 0, Rnd 0, Rnd 0] =
             Some (\<lparr>out_Symbols = (''cherry'', ''cherry'', ''cherry''), out_WinAmount = 20,
                    out_Match = True, out_Tier = []\<rparr>, [])"
    by (simp add: scratch_eval)
  from unusable_model_falls_back [OF a b c d] a b m t g
  show ?thesis
    by (simp add: scratch_eval ex_scratch_params_def ex_server_zero_def ex_win_response_def)
qed

end
